theory Spec2Isabelle
  imports Main "HOL-Library.List_Lexorder" "HOL-Library.Multiset"
begin

section \<open>Auto-MAP generator for SPF packs: a shallow embedding of scripts/generate-map.py\<close>

text \<open>
  A Python \<^verbatim>\<open>str\<close> is a list of Unicode code points, each a natural number; \<open>str\<close> turns an
  ASCII literal into such a list. Comparing these lists lexicographically is Python's
  comparison of strings, and a slice such as \<^verbatim>\<open>s[:2]\<close> counts code points.

  White space is that of \<^verbatim>\<open>\s\<close>, \<^verbatim>\<open>str.isspace\<close> and \<^verbatim>\<open>str.strip\<close> over all of Unicode. What
  needs the Unicode character database beyond ASCII (the decimal digits of \<^verbatim>\<open>\d\<close> and their
  values, \<^verbatim>\<open>str.title\<close>, \<^verbatim>\<open>str.upper\<close>), the YAML parser \<^verbatim>\<open>yaml.safe_load\<close>, and \<^verbatim>\<open>sorted\<close> on
  keys that are not all strings, are library functions: they are the fields of a record \<open>U\<close>
  that everything using them takes as a parameter. The run date (\<^verbatim>\<open>date.today()\<close>) is a
  parameter as well.
\<close>

subsection \<open>Strings\<close>

type_synonym ustr = "nat list"

definition str :: "string \<Rightarrow> ustr" where
  "str s = map of_char s"

text \<open>The characters that \<^verbatim>\<open>\s\<close> matches in a \<^verbatim>\<open>str\<close> pattern, which are those of
  \<^verbatim>\<open>str.isspace\<close>: U+0009 to U+000D, U+001C to U+0020, U+0085, U+00A0, U+1680, U+2000 to
  U+200A, U+2028, U+2029, U+202F, U+205F and U+3000.\<close>

definition is_space :: "nat \<Rightarrow> bool" where
  "is_space c =
     (c \<in> set [9, 10, 11, 12, 13, 28, 29, 30, 31, 32, 133, 160, 5760, 8232, 8233, 8239, 8287, 12288]
      \<or> (8192 \<le> c \<and> c \<le> 8202))"

text \<open>\<^verbatim>\<open>[A-Z]\<close> and \<^verbatim>\<open>[a-z]\<close>.\<close>

definition is_AZ :: "nat \<Rightarrow> bool" where
  "is_AZ c = (65 \<le> c \<and> c \<le> 90)"

definition is_az :: "nat \<Rightarrow> bool" where
  "is_az c = (97 \<le> c \<and> c \<le> 122)"

definition to_upper :: "nat \<Rightarrow> nat" where
  "to_upper c = (if is_az c then c - 32 else c)"

definition to_lower :: "nat \<Rightarrow> nat" where
  "to_lower c = (if is_AZ c then c + 32 else c)"

definition is_ascii :: "ustr \<Rightarrow> bool" where
  "is_ascii s = list_all (\<lambda>c. c < 128) s"

text \<open>\<^verbatim>\<open>s.startswith(p)\<close> and \<^verbatim>\<open>s.endswith(p)\<close>.\<close>

definition startswith :: "ustr \<Rightarrow> ustr \<Rightarrow> bool" where
  "startswith p s = (take (length p) s = p)"

definition endswith :: "ustr \<Rightarrow> ustr \<Rightarrow> bool" where
  "endswith p s = (length p \<le> length s \<and> drop (length s - length p) s = p)"

text \<open>\<^verbatim>\<open>s.split(c)\<close> for a one-character separator: never empty, one more piece than
  separators.\<close>

fun split_on :: "nat \<Rightarrow> ustr \<Rightarrow> ustr list" where
  "split_on c [] = [[]]"
| "split_on c (x # xs) =
     (if x = c then [] # split_on c xs
      else (case split_on c xs of [] \<Rightarrow> [[x]] | p # ps \<Rightarrow> (x # p) # ps))"

text \<open>\<^verbatim>\<open>sep.join(xs)\<close>.\<close>

fun join :: "ustr \<Rightarrow> ustr list \<Rightarrow> ustr" where
  "join sep [] = []"
| "join sep [x] = x"
| "join sep (x # y # ys) = x @ sep @ join sep (y # ys)"

text \<open>\<^verbatim>\<open>str(n)\<close> for integers; the digit \<open>k\<close> is the code point \<open>48 + k\<close>.\<close>

fun show_nat :: "nat \<Rightarrow> ustr" where
  "show_nat n =
     (if n < 10 then [48 + n]
      else show_nat (n div 10) @ [48 + n mod 10])"

declare show_nat.simps [simp del]

definition show_int :: "int \<Rightarrow> ustr" where
  "show_int i = (if i < 0 then 45 # show_nat (nat (- i)) else show_nat (nat i))"

definition zpad :: "nat \<Rightarrow> ustr \<Rightarrow> ustr" where
  "zpad w s = replicate (w - length s) 48 @ s"

text \<open>The placeholder of the tables: an em dash, U+2014.\<close>

definition dash :: ustr where
  "dash = [8212]"

subsection \<open>Values and records\<close>

datatype py_error = AttributeError | TypeError | KeyError | ValueError | OSError

text \<open>\<^verbatim>\<open>datetime.date\<close>, with the proleptic Gregorian ordinal of \<^verbatim>\<open>toordinal()\<close>.\<close>

datatype date = Date (year: nat) (month: nat) (day: nat)

definition is_leap :: "nat \<Rightarrow> bool" where
  "is_leap y = (y mod 4 = 0 \<and> (y mod 100 \<noteq> 0 \<or> y mod 400 = 0))"

definition days_in_month :: "nat \<Rightarrow> nat \<Rightarrow> nat" where
  "days_in_month y m =
     (if m = 2 \<and> is_leap y then 29
      else [0, 31, 28, 31, 30, 31, 30, 31, 31, 30, 31, 30, 31] ! m)"

definition days_before_year :: "nat \<Rightarrow> nat" where
  "days_before_year y = (y - 1) * 365 + (y - 1) div 4 - (y - 1) div 100 + (y - 1) div 400"

definition days_before_month :: "nat \<Rightarrow> nat \<Rightarrow> nat" where
  "days_before_month y m =
     [0, 0, 31, 59, 90, 120, 151, 181, 212, 243, 273, 304, 334] ! m
       + (if 2 < m \<and> is_leap y then 1 else 0)"

definition toordinal :: "date \<Rightarrow> nat" where
  "toordinal d = days_before_year (year d) + days_before_month (year d) (month d) + day d"

definition isoformat :: "date \<Rightarrow> ustr" where
  "isoformat d =
     zpad 4 (show_nat (year d)) @ str ''-'' @ zpad 2 (show_nat (month d)) @ str ''-''
       @ zpad 2 (show_nat (day d))"

text \<open>The dates that exist (\<^verbatim>\<open>MINYEAR\<close> is 1, \<^verbatim>\<open>MAXYEAR\<close> is 9999).\<close>

definition valid_date :: "date \<Rightarrow> bool" where
  "valid_date d =
     (1 \<le> year d \<and> year d \<le> 9999 \<and> 1 \<le> month d \<and> month d \<le> 12
      \<and> 1 \<le> day d \<and> day d \<le> days_in_month (year d) (month d))"

text \<open>
  What \<^verbatim>\<open>yaml.safe_load\<close> puts into a mapping: \<open>YDateTime\<close> is a \<^verbatim>\<open>datetime.datetime\<close>
  (an instance of \<^verbatim>\<open>date\<close>), \<open>YBytes\<close> a \<^verbatim>\<open>bytes\<close> object, \<open>YOther\<close> any other value (a float,
  a list, a nested mapping); these three are carried with their \<^verbatim>\<open>str()\<close>.
\<close>

datatype yaml = YNull | YBool bool | YInt int | YStr ustr | YDate date
  | YDateTime ustr | YBytes ustr | YOther ustr

text \<open>A \<^verbatim>\<open>dict\<close>, looked up at the keys that the script names, all of them ASCII.\<close>

type_synonym entity = "string \<Rightarrow> yaml option"

text \<open>The outcome of \<^verbatim>\<open>yaml.safe_load\<close>: it raises a \<^verbatim>\<open>yaml.YAMLError\<close>, it raises an
  exception of another class (a \<^verbatim>\<open>ValueError\<close> for an unquoted scalar that looks like a date
  but is none, such as \<^verbatim>\<open>2024-02-30\<close>), it returns a value that is no \<^verbatim>\<open>dict\<close>, or it
  returns a \<^verbatim>\<open>dict\<close>.\<close>

datatype loaded = Yaml_Error | Raised py_error | Not_Dict | Dict entity

text \<open>
  The library: \<open>safe_load\<close> is \<^verbatim>\<open>yaml.safe_load\<close>; \<open>decimal\<close> gives the value of a decimal
  digit (a character of category Nd, those that \<^verbatim>\<open>\d\<close> matches and \<^verbatim>\<open>int\<close> reads) and \<open>None\<close>
  for any other character; \<open>str_title\<close> and \<open>str_upper\<close> are \<^verbatim>\<open>str.title\<close> and \<^verbatim>\<open>str.upper\<close>;
  \<open>sorted_by_id\<close> is \<^verbatim>\<open>sorted(entities, key=lambda x: x["id"])\<close>, \<open>None\<close> when a comparison
  of two keys raises \<^verbatim>\<open>TypeError\<close>. The last four are consulted only where the definitions
  below do not decide themselves: beyond ASCII, and for keys that are not all strings.
\<close>

record lib =
  safe_load :: "ustr \<Rightarrow> loaded"
  decimal :: "nat \<Rightarrow> nat option"
  str_title :: "ustr \<Rightarrow> ustr"
  str_upper :: "ustr \<Rightarrow> ustr"
  sorted_by_id :: "entity list \<Rightarrow> entity list option"

text \<open>\<^verbatim>\<open>str(v)\<close>, as an f-string formats a value.\<close>

fun py_str :: "yaml \<Rightarrow> ustr" where
  "py_str YNull = str ''None''"
| "py_str (YBool b) = (if b then str ''True'' else str ''False'')"
| "py_str (YInt i) = show_int i"
| "py_str (YStr s) = s"
| "py_str (YDate d) = isoformat d"
| "py_str (YDateTime s) = s"
| "py_str (YBytes s) = s"
| "py_str (YOther s) = s"

text \<open>\<^verbatim>\<open>e.get(k, dash)\<close> inside an f-string.\<close>

definition get_or_dash :: "entity \<Rightarrow> string \<Rightarrow> ustr" where
  "get_or_dash e k = (case e k of None \<Rightarrow> dash | Some v \<Rightarrow> py_str v)"

text \<open>What \<^verbatim>\<open>v.split(".")\<close> raises when \<open>v\<close> is no string: \<^verbatim>\<open>bytes.split\<close> exists and
  refuses a \<^verbatim>\<open>str\<close> separator with \<^verbatim>\<open>TypeError\<close>, the other values have no attribute
  \<^verbatim>\<open>split\<close>.\<close>

definition split_error :: "yaml \<Rightarrow> py_error" where
  "split_error v = (case v of YBytes b \<Rightarrow> TypeError | _ \<Rightarrow> AttributeError)"

subsection \<open>The pack directory\<close>

text \<open>
  An entry below the pack directory: the directories leading to it, its name, and its text
  (\<open>None\<close> when \<^verbatim>\<open>read_text\<close> raises: a directory, an unreadable file, bytes that are not
  UTF-8). A pack directory is its resolved absolute path and the entries below it.
\<close>

record md_file =
  fdir :: "ustr list"
  fname :: ustr
  content :: "ustr option"

record pack_dir =
  pparts :: "ustr list"
  entries :: "md_file list"

definition fparts :: "md_file \<Rightarrow> ustr list" where
  "fparts f = fdir f @ [fname f]"

definition path_str :: "ustr list \<Rightarrow> ustr" where
  "path_str ps = 47 # join (str ''/'') ps"

definition pack_name :: "pack_dir \<Rightarrow> ustr" where
  "pack_name p = (if pparts p = [] then [] else last (pparts p))"

text \<open>\<^verbatim>\<open>sorted(pack_dir.rglob("*.md"))\<close>: paths compare by their components.\<close>

definition rglob_md :: "pack_dir \<Rightarrow> md_file list" where
  "rglob_md p = sort_key fparts (filter (\<lambda>f. endswith (str ''.md'') (fname f)) (entries p))"

subsection \<open>classify\_kind and KIND\_LABELS\<close>

definition classify_kind :: "ustr \<Rightarrow> ustr" where
  "classify_kind entity_id =
     (let parts = split_on 46 entity_id
      in if 3 \<le> length parts then parts ! 1 else str ''UNKNOWN'')"

definition KIND_LABELS :: "(ustr \<times> ustr) list" where
  "KIND_LABELS =
     [(str ''D'', str ''Distinctions''),
      (str ''R'', str ''Roles''),
      (str ''M'', str ''Methods''),
      (str ''WP'', str ''Work Products''),
      (str ''FM'', str ''Failure Modes''),
      (str ''SOTA'', str ''SoTA Annotations''),
      (str ''MAP'', str ''Maps''),
      (str ''CHR'', str ''Characteristics''),
      (str ''OA'', str ''Objects of Attention'')]"

text \<open>\<^verbatim>\<open>KIND_LABELS.get(kind, kind)\<close>.\<close>

definition kind_label :: "ustr \<Rightarrow> ustr" where
  "kind_label kind = (case map_of KIND_LABELS kind of Some l \<Rightarrow> l | None \<Rightarrow> kind)"

text \<open>A row of the statistics table, for a kind and its group.\<close>

definition stats_row :: "ustr \<Rightarrow> entity list \<Rightarrow> ustr" where
  "stats_row kind grp =
     str ''| '' @ kind_label kind @ str '' ('' @ kind @ str '') | '' @ show_nat (length grp) @ str '' |''"

subsection \<open>The regular expressions of the script\<close>

text \<open>
  Each piece of a pattern takes the rest of the pattern as a continuation and tries its
  alternatives in the order of Python's backtracking matcher: a greedy repetition the longest
  run first, a lazy one the shortest first. The newline is the code point 10; it is the only
  character that \<^verbatim>\<open>.\<close> does not match, and the only one before which \<^verbatim>\<open>$\<close> and after which \<^verbatim>\<open>^\<close>
  match under \<^verbatim>\<open>re.MULTILINE\<close>.
\<close>

text \<open>\<^verbatim>\<open>p*\<close> (greedy) and then \<open>k\<close>.\<close>

fun many_then :: "(nat \<Rightarrow> bool) \<Rightarrow> (ustr \<Rightarrow> 'a option) \<Rightarrow> ustr \<Rightarrow> 'a option" where
  "many_then p k [] = k []"
| "many_then p k (x # xs) =
     (if p x then (case many_then p k xs of Some g \<Rightarrow> Some g | None \<Rightarrow> k (x # xs))
      else k (x # xs))"

text \<open>\<^verbatim>\<open>p+\<close> (greedy) and then \<open>k\<close>.\<close>

definition many1_then :: "(nat \<Rightarrow> bool) \<Rightarrow> (ustr \<Rightarrow> 'a option) \<Rightarrow> ustr \<Rightarrow> 'a option" where
  "many1_then p k t = (case t of [] \<Rightarrow> None | x # xs \<Rightarrow> if p x then many_then p k xs else None)"

text \<open>One literal character and then \<open>k\<close>.\<close>

definition lit :: "nat \<Rightarrow> (ustr \<Rightarrow> 'a option) \<Rightarrow> ustr \<Rightarrow> 'a option" where
  "lit c k t = (case t of [] \<Rightarrow> None | x # xs \<Rightarrow> if x = c then k xs else None)"

text \<open>\<^verbatim>\<open>c?\<close> (greedy) and then \<open>k\<close>.\<close>

definition opt_then :: "nat \<Rightarrow> (ustr \<Rightarrow> 'a option) \<Rightarrow> ustr \<Rightarrow> 'a option" where
  "opt_then c k t =
     (case t of [] \<Rightarrow> k []
      | x # xs \<Rightarrow> if x = c then (case k xs of Some g \<Rightarrow> Some g | None \<Rightarrow> k t) else k t)"

text \<open>\<^verbatim>\<open>.*?\<close> (lazy, no newline) and then \<open>k\<close>.\<close>

fun lazy_dots_then :: "(ustr \<Rightarrow> 'a option) \<Rightarrow> ustr \<Rightarrow> 'a option" where
  "lazy_dots_then k [] = k []"
| "lazy_dots_then k (x # xs) =
     (case k (x # xs) of Some g \<Rightarrow> Some g
      | None \<Rightarrow> if x = 10 then None else lazy_dots_then k xs)"

text \<open>\<^verbatim>\<open>(.*?)\<close> with \<^verbatim>\<open>re.DOTALL\<close> followed by the literal \<open>pat\<close>: the group is the text
  before the first occurrence of \<open>pat\<close>.\<close>

fun lazy_until :: "ustr \<Rightarrow> ustr \<Rightarrow> ustr option" where
  "lazy_until pat [] = (if pat = [] then Some [] else None)"
| "lazy_until pat (x # xs) =
     (if startswith pat (x # xs) then Some [] else map_option ((#) x) (lazy_until pat xs))"

text \<open>\<^verbatim>\<open>(.+)$\<close> with \<^verbatim>\<open>re.MULTILINE\<close>: the rest of the line, not empty.\<close>

definition rest_of_line :: "ustr \<Rightarrow> ustr option" where
  "rest_of_line t = (let g = takeWhile (\<lambda>c. c \<noteq> 10) t in if g = [] then None else Some g)"

text \<open>\<^verbatim>\<open>re.match(r"^---\s*\n(.*?)\n---", content, re.DOTALL)\<close>: group 1, if it matches.\<close>

definition fm_match :: "ustr \<Rightarrow> ustr option" where
  "fm_match c =
     (if startswith (str ''---'') c
      then many_then is_space (lit 10 (lazy_until (10 # str ''---''))) (drop 3 c)
      else None)"

text \<open>\<^verbatim>\<open>re.search(r"^##\s+\[.*?\]\s+(.+)$", content, re.MULTILINE)\<close>: group 1 of the first
  match; \<open>bol\<close> says whether the position is the start of a line.\<close>

definition heading_at :: "ustr \<Rightarrow> ustr option" where
  "heading_at t =
     (if startswith (str ''##'') t
      then many1_then is_space
             (lit 91 (lazy_dots_then (lit 93 (many1_then is_space rest_of_line))))
             (drop 2 t)
      else None)"

fun heading_from :: "bool \<Rightarrow> ustr \<Rightarrow> ustr option" where
  "heading_from bol [] = None"
| "heading_from bol (x # xs) =
     (case (if bol then heading_at (x # xs) else None) of
        Some g \<Rightarrow> Some g
      | None \<Rightarrow> heading_from (x = 10) xs)"

definition heading_search :: "ustr \<Rightarrow> ustr option" where
  "heading_search c = heading_from True c"

text \<open>The value of a decimal digit, and \<^verbatim>\<open>\d\<close>: the ten ASCII digits, and beyond ASCII
  what the character database says.\<close>

definition digit_val :: "lib \<Rightarrow> nat \<Rightarrow> nat option" where
  "digit_val U c =
     (if c < 128 then (if 48 \<le> c \<and> c \<le> 57 then Some (c - 48) else None)
      else decimal U c)"

definition is_digit :: "lib \<Rightarrow> nat \<Rightarrow> bool" where
  "is_digit U c = (digit_val U c \<noteq> None)"

text \<open>\<^verbatim>\<open>re.sub(r"^[A-Z]+\.[A-Z]+\.\d+-?", "", slug)\<close>.\<close>

definition id_prefix_rest :: "lib \<Rightarrow> ustr \<Rightarrow> ustr option" where
  "id_prefix_rest U =
     many1_then is_AZ (lit 46 (many1_then is_AZ (lit 46
       (many1_then (is_digit U) (opt_then 45 Some)))))"

definition strip_id_prefix :: "lib \<Rightarrow> ustr \<Rightarrow> ustr" where
  "strip_id_prefix U slug = (case id_prefix_rest U slug of Some r \<Rightarrow> r | None \<Rightarrow> slug)"

text \<open>\<^verbatim>\<open>re.search(r"Pack ID[*]*:\s*`?([A-Z]{2,4})`?", content)\<close>: group 1 of the first match.\<close>

definition upper_2_4 :: "ustr \<Rightarrow> ustr option" where
  "upper_2_4 t = (let g = take 4 (takeWhile is_AZ t) in if 2 \<le> length g then Some g else None)"

definition pack_id_at :: "ustr \<Rightarrow> ustr option" where
  "pack_id_at t =
     (if startswith (str ''Pack ID'') t
      then many_then (\<lambda>c. c = 42)
             (lit 58 (many_then is_space (opt_then 96 upper_2_4))) (drop 7 t)
      else None)"

fun pack_id_search :: "ustr \<Rightarrow> ustr option" where
  "pack_id_search [] = None"
| "pack_id_search (x # xs) =
     (case pack_id_at (x # xs) of Some g \<Rightarrow> Some g | None \<Rightarrow> pack_id_search xs)"

subsection \<open>String methods and path parts used by the parser\<close>

text \<open>\<^verbatim>\<open>s.strip()\<close> and \<^verbatim>\<open>s.replace("-", " ")\<close>.\<close>

definition py_strip :: "ustr \<Rightarrow> ustr" where
  "py_strip s = rev (dropWhile is_space (rev (dropWhile is_space s)))"

definition hyphens_to_spaces :: "ustr \<Rightarrow> ustr" where
  "hyphens_to_spaces s = map (\<lambda>c. if c = 45 then 32 else c) s"

text \<open>\<^verbatim>\<open>s.title()\<close>: on ASCII text a letter becomes a capital after a character that is no
  letter (and at the start) and a small letter after a letter; other text is the
  library's.\<close>

fun title_from :: "bool \<Rightarrow> ustr \<Rightarrow> ustr" where
  "title_from prev [] = []"
| "title_from prev (c # cs) =
     (if is_az c \<or> is_AZ c
      then (if prev then to_lower c else to_upper c) # title_from True cs
      else c # title_from False cs)"

definition py_title :: "lib \<Rightarrow> ustr \<Rightarrow> ustr" where
  "py_title U s = (if is_ascii s then title_from False s else str_title U s)"

text \<open>\<^verbatim>\<open>s.upper()\<close>.\<close>

definition py_upper :: "lib \<Rightarrow> ustr \<Rightarrow> ustr" where
  "py_upper U s = (if is_ascii s then map to_upper s else str_upper U s)"

text \<open>\<^verbatim>\<open>Path.stem\<close>: the name up to its last dot, when that dot is neither first nor last.\<close>

definition rfind :: "nat \<Rightarrow> ustr \<Rightarrow> nat option" where
  "rfind c s =
     (if c \<in> set s then Some (length s - 1 - length (takeWhile (\<lambda>x. x \<noteq> c) (rev s))) else None)"

definition stem :: "ustr \<Rightarrow> ustr" where
  "stem name =
     (case rfind 46 name of
        None \<Rightarrow> name
      | Some i \<Rightarrow> if 0 < i \<and> i < length name - 1 then take i name else name)"

subsection \<open>parse\_frontmatter\<close>

text \<open>
  \<open>root\<close> holds the components of the pack directory, so that \<open>root @ fparts f\<close> is the path
  the function is called with. \<open>Inr None\<close> is the return value \<^verbatim>\<open>None\<close>, \<open>Inr (Some data)\<close> a
  returned record, and \<open>Inl err\<close> an exception that leaves the function: line 63 catches
  \<^verbatim>\<open>yaml.YAMLError\<close> only, so whatever else \<^verbatim>\<open>yaml.safe_load\<close> raises goes to the caller.
\<close>

definition derive_name :: "lib \<Rightarrow> ustr \<Rightarrow> ustr \<Rightarrow> entity \<Rightarrow> entity" where
  "derive_name U c name data =
     (case heading_search c of
        Some g \<Rightarrow> data(''name'' \<mapsto> YStr (py_strip g))
      | None \<Rightarrow>
          (let slug = strip_id_prefix U (stem name)
           in if slug \<noteq> [] then data(''name'' \<mapsto> YStr (py_title U (hyphens_to_spaces slug)))
              else data))"

definition parse_frontmatter :: "lib \<Rightarrow> ustr list \<Rightarrow> md_file \<Rightarrow> py_error + entity option" where
  "parse_frontmatter U root f =
     (case content f of
        None \<Rightarrow> Inr None
      | Some c \<Rightarrow>
          (case fm_match c of
             None \<Rightarrow> Inr None
           | Some block \<Rightarrow>
               (case safe_load U block of
                  Dict data0 \<Rightarrow>
                    if data0 ''id'' \<noteq> None
                    then (let data = data0(''_filepath'' \<mapsto> YStr (path_str (root @ fparts f)))
                          in if data ''name'' = None then Inr (Some (derive_name U c (fname f) data))
                             else Inr (Some data))
                    else Inr None
                | Not_Dict \<Rightarrow> Inr None
                | Yaml_Error \<Rightarrow> Inr None
                | Raised err \<Rightarrow> Inl err)))"

subsection \<open>\<^verbatim>\<open>datetime.strptime(s, "%Y-%m-%d").date()\<close>\<close>

text \<open>
  The format compiles to the pattern
  \<^verbatim>\<open>(?P<Y>\d\d\d\d)-(?P<m>1[0-2]|0[1-9]|[1-9])-(?P<d>3[01]|[12]\d|0[1-9]|[1-9]| [1-9])\<close>,
  matched at the start of the string, and \<^verbatim>\<open>int\<close> reads each group; text left over after the
  match and a date that does not exist both raise \<^verbatim>\<open>ValueError\<close>, here \<open>None\<close>. A character
  class is given as the function from a character to the value it contributes: \<open>digit_in\<close>
  for a range of ASCII digits, \<open>digit_val U\<close> for \<^verbatim>\<open>\d\<close>, \<open>blank\<close> for the space.
\<close>

definition digit_in :: "nat \<Rightarrow> nat \<Rightarrow> nat \<Rightarrow> nat option" where
  "digit_in lo hi c = (if 48 + lo \<le> c \<and> c \<le> 48 + hi then Some (c - 48) else None)"

definition blank :: "nat \<Rightarrow> nat option" where
  "blank c = (if c = 32 then Some 0 else None)"

fun first_some :: "'a option list \<Rightarrow> 'a option" where
  "first_some [] = None"
| "first_some (x # xs) = (case x of Some y \<Rightarrow> Some y | None \<Rightarrow> first_some xs)"

definition two_chars ::
  "(nat \<Rightarrow> nat option) \<Rightarrow> (nat \<Rightarrow> nat option) \<Rightarrow> (nat \<Rightarrow> ustr \<Rightarrow> 'a option) \<Rightarrow> ustr \<Rightarrow> 'a option"
where
  "two_chars da db k t =
     (case t of a # b # r \<Rightarrow>
        (case da a of None \<Rightarrow> None
         | Some x \<Rightarrow> (case db b of None \<Rightarrow> None | Some y \<Rightarrow> k (10 * x + y) r))
      | _ \<Rightarrow> None)"

definition one_char :: "(nat \<Rightarrow> nat option) \<Rightarrow> (nat \<Rightarrow> ustr \<Rightarrow> 'a option) \<Rightarrow> ustr \<Rightarrow> 'a option" where
  "one_char da k t =
     (case t of a # r \<Rightarrow> (case da a of None \<Rightarrow> None | Some x \<Rightarrow> k x r) | _ \<Rightarrow> None)"

definition re_month :: "(nat \<Rightarrow> ustr \<Rightarrow> 'a option) \<Rightarrow> ustr \<Rightarrow> 'a option" where
  "re_month k t =
     first_some [two_chars (digit_in 1 1) (digit_in 0 2) k t,
       two_chars (digit_in 0 0) (digit_in 1 9) k t,
       one_char (digit_in 1 9) k t]"

definition re_day :: "lib \<Rightarrow> (nat \<Rightarrow> ustr \<Rightarrow> 'a option) \<Rightarrow> ustr \<Rightarrow> 'a option" where
  "re_day U k t =
     first_some [two_chars (digit_in 3 3) (digit_in 0 1) k t,
       two_chars (digit_in 1 2) (digit_val U) k t,
       two_chars (digit_in 0 0) (digit_in 1 9) k t,
       one_char (digit_in 1 9) k t,
       two_chars blank (digit_in 1 9) k t]"

definition re_year :: "lib \<Rightarrow> (nat \<Rightarrow> ustr \<Rightarrow> 'a option) \<Rightarrow> ustr \<Rightarrow> 'a option" where
  "re_year U k t =
     (case t of a # b # c # d # r \<Rightarrow>
        (case (digit_val U a, digit_val U b, digit_val U c, digit_val U d) of
           (Some a', Some b', Some c', Some d') \<Rightarrow> k (1000 * a' + 100 * b' + 10 * c' + d') r
         | _ \<Rightarrow> None)
      | _ \<Rightarrow> None)"

definition re_ymd :: "lib \<Rightarrow> ustr \<Rightarrow> (nat \<times> nat \<times> nat \<times> ustr) option" where
  "re_ymd U = re_year U (\<lambda>y. lit 45 (re_month (\<lambda>m. lit 45 (re_day U (\<lambda>d r. Some (y, m, d, r))))))"

definition strptime_ymd :: "lib \<Rightarrow> ustr \<Rightarrow> date option" where
  "strptime_ymd U s =
     (case re_ymd U s of
        None \<Rightarrow> None
      | Some (y, m, d, r) \<Rightarrow>
          if r \<noteq> [] then None
          else if 1 \<le> y \<and> 1 \<le> d \<and> d \<le> days_in_month y m then Some (Date y m d)
          else None)"

subsection \<open>generate\_map\<close>

text \<open>The text of \<^verbatim>\<open>fm['id']\<close> in an f-string; every record of \<open>parse_frontmatter\<close> has the
  key.\<close>

definition id_text :: "entity \<Rightarrow> ustr" where
  "id_text e = (case e ''id'' of Some v \<Rightarrow> py_str v | None \<Rightarrow> [])"

definition warning_text :: "entity \<Rightarrow> md_file \<Rightarrow> ustr" where
  "warning_text fm f = str ''Missing `summary`: '' @ id_text fm @ str '' ('' @ fname f @ str '')''"

text \<open>The walk over the files (lines 94 to 107): \<open>entities\<close> and \<open>warnings\<close> grow at the end;
  an exception of \<open>parse_frontmatter\<close> ends the walk and the function.\<close>

fun map_walk ::
  "lib \<Rightarrow> ustr list \<Rightarrow> md_file list \<Rightarrow> entity list \<Rightarrow> ustr list
     \<Rightarrow> py_error + entity list \<times> ustr list"
where
  "map_walk U root [] entities warnings = Inr (entities, warnings)"
| "map_walk U root (f # fs) entities warnings =
     (if startswith (str ''_'') (fname f) then map_walk U root fs entities warnings
      else if fname f \<in> set [str ''00-pack-manifest.md'', str ''ontology.md'']
      then map_walk U root fs entities warnings
      else (case parse_frontmatter U root f of
              Inl err \<Rightarrow> Inl err
            | Inr None \<Rightarrow> map_walk U root fs entities warnings
            | Inr (Some fm) \<Rightarrow>
                map_walk U root fs (entities @ [fm])
                  (if fm ''summary'' = None then warnings @ [warning_text fm f] else warnings)))"

text \<open>\<^verbatim>\<open>by_kind[kind].append(e)\<close> on a \<^verbatim>\<open>defaultdict(list)\<close>: a dictionary keeps its keys in
  the order of insertion.\<close>

fun group_append :: "ustr \<Rightarrow> entity \<Rightarrow> (ustr \<times> entity list) list \<Rightarrow> (ustr \<times> entity list) list" where
  "group_append kind e [] = [(kind, [e])]"
| "group_append kind e ((k, grp) # rest) =
     (if k = kind then (k, grp @ [e]) # rest else (k, grp) # group_append kind e rest)"

text \<open>The grouping loop (lines 110 to 113): \<^verbatim>\<open>e["id"].split(".")\<close> raises for an identifier
  that is no string.\<close>

fun by_kind_loop ::
  "entity list \<Rightarrow> (ustr \<times> entity list) list \<Rightarrow> py_error + (ustr \<times> entity list) list"
where
  "by_kind_loop [] by_kind = Inr by_kind"
| "by_kind_loop (e # es) by_kind =
     (case e ''id'' of
        Some (YStr s) \<Rightarrow> by_kind_loop es (group_append (classify_kind s) e by_kind)
      | Some v \<Rightarrow> Inl (split_error v)
      | None \<Rightarrow> Inl KeyError)"

definition header_lines :: "ustr \<Rightarrow> ustr \<Rightarrow> ustr list" where
  "header_lines today domain =
     [str ''---'',
      str ''id: '' @ domain @ str ''.MAP.001'',
      str ''name: Pack Navigation Map'',
      str ''scope: full-pack'',
      str ''created: '' @ today,
      str ''last_updated: '' @ today,
      str ''generated: true'',
      str ''---'',
      str '''',
      str ''# ['' @ domain @ str ''.MAP.001] Pack Navigation Map'',
      str '''',
      str ''> Auto-generated from frontmatter on '' @ today @ str ''. Do not edit manually.'',
      str '''',
      str ''---'',
      str '''',
      str ''## Statistics'',
      str '''',
      str ''| Kind | Count |'',
      str ''|------|-------|'']"

text \<open>\<^verbatim>\<open>by_kind[kind]\<close> for a key of the dictionary.\<close>

definition group_of :: "(ustr \<times> entity list) list \<Rightarrow> ustr \<Rightarrow> entity list" where
  "group_of by_kind kind = (case map_of by_kind kind of Some grp \<Rightarrow> grp | None \<Rightarrow> [])"

definition stats_lines :: "(ustr \<times> entity list) list \<Rightarrow> entity list \<Rightarrow> ustr list" where
  "stats_lines by_kind entities =
     map (\<lambda>kind. stats_row kind (group_of by_kind kind)) (sort (map fst by_kind))
     @ [str ''| **Total** | **'' @ show_nat (length entities) @ str ''** |'', str '''']"

definition entity_row :: "entity \<Rightarrow> ustr" where
  "entity_row e =
     str ''| '' @ id_text e @ str '' | '' @ get_or_dash e ''name'' @ str '' | ''
       @ get_or_dash e ''summary'' @ str '' | '' @ get_or_dash e ''status'' @ str '' |''"

text \<open>The table of one kind: its two head lines, the rows sorted by identifier, an empty
  line.\<close>

definition kind_table :: "entity list \<Rightarrow> ustr list" where
  "kind_table grp =
     [str ''| ID | Name | Summary | Status |'', str ''|----|------|---------|--------|'']
     @ map entity_row (sort_key id_text grp) @ [str '''']"

definition known_kinds :: "ustr list" where
  "known_kinds = [str ''D'', str ''R'', str ''M'', str ''WP'', str ''FM'', str ''SOTA'', str ''MAP'']"

definition base_kinds :: "ustr list" where
  "base_kinds =
     [str ''D'', str ''R'', str ''M'', str ''WP'', str ''FM'', str ''SOTA'', str ''MAP'',
      str ''CHR'', str ''OA'']"

text \<open>Sections per kind (lines 147 to 163).\<close>

definition known_section :: "(ustr \<times> entity list) list \<Rightarrow> ustr \<Rightarrow> ustr list" where
  "known_section by_kind kind =
     (case map_of by_kind kind of
        None \<Rightarrow> []
      | Some grp \<Rightarrow> [str ''## '' @ kind_label kind, str ''''] @ kind_table grp)"

definition known_sections :: "(ustr \<times> entity list) list \<Rightarrow> ustr list" where
  "known_sections by_kind = concat (map (known_section by_kind) known_kinds)"

text \<open>Extended kinds (lines 166 to 183).\<close>

definition extended :: "(ustr \<times> entity list) list \<Rightarrow> (ustr \<times> entity list) list" where
  "extended by_kind = filter (\<lambda>(k, v). k \<notin> set base_kinds) by_kind"

definition extended_subsection :: "(ustr \<times> entity list) list \<Rightarrow> ustr \<Rightarrow> ustr list" where
  "extended_subsection ext kind =
     [str ''### '' @ kind_label kind, str ''''] @ kind_table (group_of ext kind)"

definition extended_sections :: "(ustr \<times> entity list) list \<Rightarrow> ustr list" where
  "extended_sections by_kind =
     (let ext = extended by_kind
      in if ext \<noteq> []
         then [str ''## Domain-Specific Entities'', str '''']
              @ concat (map (extended_subsection ext) (sort (map fst ext)))
         else [])"

text \<open>Warnings (lines 186 to 191).\<close>

definition warning_lines :: "ustr list \<Rightarrow> ustr list" where
  "warning_lines warnings =
     (if warnings \<noteq> []
      then [str ''## Warnings'', str ''''] @ map (\<lambda>w. str ''- '' @ w) warnings @ [str '''']
      else [])"

text \<open>Staleness check (lines 194 to 209). \<^verbatim>\<open>if last_updated:\<close> tests the truth value; for
  \<open>YBytes\<close> and \<open>YOther\<close> both outcomes of the test lead to \<^verbatim>\<open>continue\<close>. A
  \<^verbatim>\<open>datetime\<close> is an instance of \<^verbatim>\<open>date\<close> and passes line 203; subtracting it from a
  \<^verbatim>\<open>date\<close> on line 207 raises \<^verbatim>\<open>TypeError\<close>.\<close>

fun truthy :: "yaml \<Rightarrow> bool" where
  "truthy YNull = False"
| "truthy (YBool b) = b"
| "truthy (YInt i) = (i \<noteq> 0)"
| "truthy (YStr s) = (s \<noteq> [])"
| "truthy (YDate d) = True"
| "truthy (YDateTime s) = True"
| "truthy (YBytes s) = True"
| "truthy (YOther s) = True"

definition days_between :: "date \<Rightarrow> date \<Rightarrow> int" where
  "days_between today lu = int (toordinal today) - int (toordinal lu)"

definition stale_entry :: "date \<Rightarrow> entity \<Rightarrow> date \<Rightarrow> (ustr \<times> int) list" where
  "stale_entry today e lu =
     (let days = days_between today lu in if 90 < days then [(id_text e, days)] else [])"

fun stale_loop ::
  "lib \<Rightarrow> date \<Rightarrow> entity list \<Rightarrow> (ustr \<times> int) list \<Rightarrow> py_error + (ustr \<times> int) list"
where
  "stale_loop U today [] stale = Inr stale"
| "stale_loop U today (e # es) stale =
     (case e ''last_updated'' of
        None \<Rightarrow> stale_loop U today es stale
      | Some v \<Rightarrow>
          if truthy v then
            (case v of
               YStr s \<Rightarrow>
                 (case strptime_ymd U s of
                    None \<Rightarrow> stale_loop U today es stale
                  | Some lu \<Rightarrow> stale_loop U today es (stale @ stale_entry today e lu))
             | YDate lu \<Rightarrow> stale_loop U today es (stale @ stale_entry today e lu)
             | YDateTime t \<Rightarrow> Inl TypeError
             | _ \<Rightarrow> stale_loop U today es stale)
          else stale_loop U today es stale)"

text \<open>The staleness table (lines 211 to 218): \<^verbatim>\<open>sorted\<close> is stable.\<close>

definition stale_row :: "ustr \<times> int \<Rightarrow> ustr" where
  "stale_row x = str ''| '' @ fst x @ str '' | '' @ show_int (snd x) @ str '' |''"

definition stale_lines :: "(ustr \<times> int) list \<Rightarrow> ustr list" where
  "stale_lines stale =
     (if stale \<noteq> []
      then [str ''## Staleness Warnings (>90 days since update)'', str '''',
            str ''| ID | Days Since Update |'', str ''|----|-------------------|'']
           @ map stale_row (sort_key (\<lambda>x. - snd x) stale) @ [str '''']
      else [])"

definition footer_lines :: "ustr \<Rightarrow> ustr list" where
  "footer_lines today =
     [str ''---'', str '''', str ''*Generated by `scripts/generate-map.py` on '' @ today @ str ''*'']"

text \<open>The list \<open>lines\<close> as the function has built it when it reaches line 224, in the order
  of the appends; \<open>today\<close> is the run date and \<open>domain\<close> the text of the domain in an
  f-string. \<open>generate_map\<close> returns its lines joined by newlines.\<close>

definition map_lines :: "lib \<Rightarrow> date \<Rightarrow> pack_dir \<Rightarrow> ustr \<Rightarrow> py_error + ustr list" where
  "map_lines U today p domain =
     (case map_walk U (pparts p) (rglob_md p) [] [] of
        Inl err \<Rightarrow> Inl err
      | Inr (entities, warnings) \<Rightarrow>
          (case by_kind_loop entities [] of
             Inl err \<Rightarrow> Inl err
           | Inr by_kind \<Rightarrow>
               (case stale_loop U today entities [] of
                  Inl err \<Rightarrow> Inl err
                | Inr stale \<Rightarrow>
                    Inr (header_lines (isoformat today) domain
                         @ stats_lines by_kind entities
                         @ known_sections by_kind
                         @ extended_sections by_kind
                         @ warning_lines warnings
                         @ stale_lines stale
                         @ footer_lines (isoformat today)))))"

definition generate_map :: "lib \<Rightarrow> date \<Rightarrow> pack_dir \<Rightarrow> ustr \<Rightarrow> py_error + ustr" where
  "generate_map U today p domain =
     (case map_lines U today p domain of Inl err \<Rightarrow> Inl err | Inr lines \<Rightarrow> Inr (join [10] lines))"

subsection \<open>generate\_entity\_index\<close>

fun index_walk :: "lib \<Rightarrow> ustr list \<Rightarrow> md_file list \<Rightarrow> entity list \<Rightarrow> py_error + entity list" where
  "index_walk U root [] entities = Inr entities"
| "index_walk U root (f # fs) entities =
     (if startswith (str ''_'') (fname f) then index_walk U root fs entities
      else if fname f \<in> set [str ''00-pack-manifest.md'', str ''ontology.md'']
      then index_walk U root fs entities
      else (case parse_frontmatter U root f of
              Inl err \<Rightarrow> Inl err
            | Inr None \<Rightarrow> index_walk U root fs entities
            | Inr (Some fm) \<Rightarrow> index_walk U root fs (entities @ [fm])))"

definition is_str_id :: "entity \<Rightarrow> bool" where
  "is_str_id e = (case e ''id'' of Some (YStr s) \<Rightarrow> True | _ \<Rightarrow> False)"

text \<open>\<^verbatim>\<open>sorted(entities, key=lambda x: x["id"])\<close> on line 246: a stable sort when all keys are
  strings; no comparison at all for fewer than two records; otherwise the library's, \<open>None\<close>
  when it raises \<^verbatim>\<open>TypeError\<close>.\<close>

definition py_sorted_by_id :: "lib \<Rightarrow> entity list \<Rightarrow> entity list option" where
  "py_sorted_by_id U entities =
     (if list_all is_str_id entities then Some (sort_key id_text entities)
      else if length entities < 2 then Some entities
      else sorted_by_id U entities)"

definition index_row :: "entity \<Rightarrow> ustr" where
  "index_row e =
     str ''| '' @ id_text e @ str '' | '' @ get_or_dash e ''name'' @ str '' | ''
       @ classify_kind (id_text e) @ str '' | '' @ get_or_dash e ''summary'' @ str '' | ''
       @ get_or_dash e ''status'' @ str '' |''"

text \<open>The loop of lines 246 to 252 over the sorted records: \<^verbatim>\<open>classify_kind(eid)\<close> raises
  for an identifier that is no string.\<close>

fun index_rows :: "entity list \<Rightarrow> ustr list \<Rightarrow> py_error + ustr list" where
  "index_rows [] lines = Inr lines"
| "index_rows (e # es) lines =
     (case e ''id'' of
        Some (YStr s) \<Rightarrow> index_rows es (lines @ [index_row e])
      | Some v \<Rightarrow> Inl (split_error v)
      | None \<Rightarrow> Inl KeyError)"

definition index_lines :: "lib \<Rightarrow> pack_dir \<Rightarrow> py_error + ustr list" where
  "index_lines U p =
     (case index_walk U (pparts p) (rglob_md p) [] of
        Inl err \<Rightarrow> Inl err
      | Inr entities \<Rightarrow>
          (case py_sorted_by_id U entities of
             None \<Rightarrow> Inl TypeError
           | Some ordered \<Rightarrow>
               index_rows ordered
                 [str ''## Entity Index'', str '''',
                  str ''| ID | Name | Kind | Summary | Status |'',
                  str ''|----|------|------|---------|--------|'']))"

definition generate_entity_index :: "lib \<Rightarrow> pack_dir \<Rightarrow> py_error + ustr" where
  "generate_entity_index U p =
     (case index_lines U p of Inl err \<Rightarrow> Inl err | Inr lines \<Rightarrow> Inr (join [10] lines))"

subsection \<open>detect\_domain\<close>

text \<open>\<^verbatim>\<open>manifest = pack_dir / "00-pack-manifest.md"\<close>, when it exists.\<close>

definition manifest_of :: "pack_dir \<Rightarrow> md_file option" where
  "manifest_of p = find (\<lambda>f. fdir f = [] \<and> fname f = str ''00-pack-manifest.md'') (entries p)"

text \<open>What the branch \<^verbatim>\<open>if manifest.exists():\<close> returns, \<open>Inr None\<close> when it falls through:
  the \<open>pack_id\<close> of the manifest's record, or else the code found in its text. The call of
  \<open>parse_frontmatter\<close> on line 263 stands outside the \<^verbatim>\<open>try\<close>.\<close>

definition manifest_domain :: "lib \<Rightarrow> pack_dir \<Rightarrow> py_error + yaml option" where
  "manifest_domain U p =
     (case manifest_of p of
        None \<Rightarrow> Inr None
      | Some manifest \<Rightarrow>
          (case parse_frontmatter U (pparts p) manifest of
             Inl err \<Rightarrow> Inl err
           | Inr fm \<Rightarrow>
               (case (case fm of None \<Rightarrow> None | Some data \<Rightarrow> data ''pack_id'') of
                  Some v \<Rightarrow> Inr (Some v)
                | None \<Rightarrow>
                    (case content manifest of
                       None \<Rightarrow> Inr None
                     | Some c \<Rightarrow> Inr (map_option YStr (pack_id_search c))))))"

text \<open>The loop over the files (lines 275 to 282): \<open>Inr None\<close> when it ends without a
  \<^verbatim>\<open>return\<close>.\<close>

fun domain_walk :: "lib \<Rightarrow> ustr list \<Rightarrow> md_file list \<Rightarrow> py_error + ustr option" where
  "domain_walk U root [] = Inr None"
| "domain_walk U root (f # fs) =
     (if startswith (str ''_'') (fname f) \<or> fname f = str ''00-pack-manifest.md''
      then domain_walk U root fs
      else (case parse_frontmatter U root f of
              Inl err \<Rightarrow> Inl err
            | Inr None \<Rightarrow> domain_walk U root fs
            | Inr (Some fm) \<Rightarrow>
                (case fm ''id'' of
                   None \<Rightarrow> domain_walk U root fs
                 | Some (YStr s) \<Rightarrow>
                     (let parts = split_on 46 s
                      in if 2 \<le> length parts then Inr (Some (parts ! 0))
                         else domain_walk U root fs)
                 | Some v \<Rightarrow> Inl (split_error v))))"

definition detect_domain :: "lib \<Rightarrow> pack_dir \<Rightarrow> py_error + yaml" where
  "detect_domain U p =
     (case manifest_domain U p of
        Inl err \<Rightarrow> Inl err
      | Inr (Some v) \<Rightarrow> Inr v
      | Inr None \<Rightarrow>
          (case domain_walk U (pparts p) (rglob_md p) of
             Inl err \<Rightarrow> Inl err
           | Inr (Some s) \<Rightarrow> Inr (YStr s)
           | Inr None \<Rightarrow> Inr (YStr (take 2 (py_upper U (pack_name p))))))"

subsection \<open>main\<close>

text \<open>
  The world of a run: what the path argument resolves to (a directory with its entries, or
  something else, with the resolved path), and whether \<^verbatim>\<open>mkdir\<close> and \<^verbatim>\<open>write_text\<close> succeed.
  A successful write replaces the entry at the path of the map file, and the index is
  generated from the directory as it is after the write. The result is the exit code of the
  process and what it printed on standard output; an uncaught exception ends the process
  with exit code 1 and a traceback on standard error.
\<close>

datatype resolved = Directory pack_dir | Not_Directory ustr

definition write_text :: "pack_dir \<Rightarrow> ustr list \<Rightarrow> ustr \<Rightarrow> ustr \<Rightarrow> pack_dir" where
  "write_text p dir name txt =
     p\<lparr>entries := filter (\<lambda>f. fparts f \<noteq> dir @ [name]) (entries p)
                    @ [\<lparr>fdir = dir, fname = name, content = Some txt\<rparr>]\<rparr>"

definition main ::
  "lib \<Rightarrow> date \<Rightarrow> (ustr \<Rightarrow> resolved) \<Rightarrow> bool \<Rightarrow> ustr list \<Rightarrow> nat \<times> ustr list"
where
  "main U today resolve writable argv =
     (if length argv < 2
      then (1, [str ''Usage: python generate-map.py <pack-directory> [--manifest]''])
      else
        (case resolve (argv ! 1) of
           Not_Directory path \<Rightarrow> (1, [str ''Error: '' @ path @ str '' is not a directory''])
         | Directory p \<Rightarrow>
             (case detect_domain U p of
                Inl err \<Rightarrow> (1, [])
              | Inr domain \<Rightarrow>
                  (let out1 = [str ''Domain: '' @ py_str domain,
                               str ''Pack directory: '' @ path_str (pparts p)]
                   in case generate_map U today p (py_str domain) of
                        Inl err \<Rightarrow> (1, out1)
                      | Inr map_content \<Rightarrow>
                          if \<not> writable then (1, out1)
                          else
                            (let name = py_str domain @ str ''.MAP.001.md'';
                                 p' = write_text p [str ''07-map''] name map_content;
                                 out2 = out1 @ [str ''MAP written to: ''
                                                @ path_str (pparts p @ [str ''07-map'', name])]
                             in case generate_entity_index U p' of
                                  Inl err \<Rightarrow> (1, out2)
                                | Inr entity_index \<Rightarrow>
                                    (0, out2
                                        @ (if str ''--manifest'' \<in> set argv
                                           then [10 # str ''Entity Index (for manifest):'' @ [10]]
                                           else [])
                                        @ [entity_index]))))))"

subsection \<open>What the walks collect, in the words of the specification\<close>

text \<open>
  A file is skipped when its name starts with an underscore or is one of the two fixed names.
  The parser raises on a file when \<^verbatim>\<open>yaml.safe_load\<close> raises something else than a
  \<^verbatim>\<open>yaml.YAMLError\<close> on its metadata block; \<open>parsed\<close> is the record of a file, if the parser
  returns one. The collected records are those of the files that are not skipped and have
  one, each with its file, in the order of the walk; a walk ends with the exception of the
  first file, not skipped, on which the parser raises.
\<close>

definition skipped :: "md_file \<Rightarrow> bool" where
  "skipped f =
     (startswith (str ''_'') (fname f) \<or> fname f \<in> set [str ''00-pack-manifest.md'', str ''ontology.md''])"

definition foreign_error :: "lib \<Rightarrow> md_file \<Rightarrow> py_error option" where
  "foreign_error U f =
     (case content f of
        None \<Rightarrow> None
      | Some c \<Rightarrow>
          (case fm_match c of
             None \<Rightarrow> None
           | Some block \<Rightarrow> (case safe_load U block of Raised err \<Rightarrow> Some err | _ \<Rightarrow> None)))"

definition parsed :: "lib \<Rightarrow> ustr list \<Rightarrow> md_file \<Rightarrow> entity option" where
  "parsed U root f = (case parse_frontmatter U root f of Inr r \<Rightarrow> r | Inl err \<Rightarrow> None)"

definition collected_files :: "lib \<Rightarrow> ustr list \<Rightarrow> md_file list \<Rightarrow> (entity \<times> md_file) list" where
  "collected_files U root fs =
     List.map_filter (\<lambda>f. if skipped f then None else map_option (\<lambda>fm. (fm, f)) (parsed U root f)) fs"

definition walk_error :: "lib \<Rightarrow> md_file list \<Rightarrow> py_error option" where
  "walk_error U fs = first_some (map (\<lambda>f. if skipped f then None else foreign_error U f) fs)"

text \<open>The category code of a record.\<close>

definition kind_of :: "entity \<Rightarrow> ustr" where
  "kind_of e = classify_kind (id_text e)"

text \<open>The date of the last update of a record, when its field is a date or a string that
  \<^verbatim>\<open>strptime\<close> accepts, and the staleness entry of a record: none unless that date is more than
  90 days before the run date.\<close>

definition last_update :: "lib \<Rightarrow> entity \<Rightarrow> date option" where
  "last_update U e =
     (case e ''last_updated'' of
        Some (YStr s) \<Rightarrow> strptime_ymd U s
      | Some (YDate d) \<Rightarrow> Some d
      | _ \<Rightarrow> None)"

definition stale_of :: "lib \<Rightarrow> date \<Rightarrow> entity \<Rightarrow> (ustr \<times> int) list" where
  "stale_of U today e =
     (case last_update U e of
        None \<Rightarrow> []
      | Some lu \<Rightarrow> if 90 < days_between today lu then [(id_text e, days_between today lu)] else [])"

definition is_datetime :: "entity \<Rightarrow> bool" where
  "is_datetime e = (case e ''last_updated'' of Some (YDateTime t) \<Rightarrow> True | _ \<Rightarrow> False)"

subsection \<open>The strategies of detect\_domain\<close>

text \<open>
  The mapping that the metadata block of a file loads as; the \<open>pack_id\<close> field of the
  manifest's mapping; the code after a \<open>Pack ID\<close> label in the manifest's text; the first
  segment of the first identifier with a dot among the records of the files that are
  neither underscore files nor named like the manifest.
\<close>

definition frontmatter :: "lib \<Rightarrow> md_file \<Rightarrow> entity option" where
  "frontmatter U f =
     (case content f of
        None \<Rightarrow> None
      | Some c \<Rightarrow>
          (case fm_match c of
             None \<Rightarrow> None
           | Some block \<Rightarrow> (case safe_load U block of Dict d \<Rightarrow> Some d | _ \<Rightarrow> None)))"

definition pack_id_field :: "lib \<Rightarrow> pack_dir \<Rightarrow> yaml option" where
  "pack_id_field U p =
     (case manifest_of p of
        None \<Rightarrow> None
      | Some m \<Rightarrow> (case frontmatter U m of None \<Rightarrow> None | Some d \<Rightarrow> d ''pack_id''))"

definition pack_id_label :: "pack_dir \<Rightarrow> ustr option" where
  "pack_id_label p =
     (case manifest_of p of
        None \<Rightarrow> None
      | Some m \<Rightarrow> (case content m of None \<Rightarrow> None | Some c \<Rightarrow> pack_id_search c))"

definition domain_candidates :: "lib \<Rightarrow> ustr list \<Rightarrow> md_file list \<Rightarrow> entity list" where
  "domain_candidates U root fs =
     List.map_filter
       (\<lambda>f. if startswith (str ''_'') (fname f) \<or> fname f = str ''00-pack-manifest.md'' then None
            else parsed U root f) fs"

definition first_dotted :: "lib \<Rightarrow> ustr list \<Rightarrow> md_file list \<Rightarrow> ustr option" where
  "first_dotted U root fs =
     (case filter (\<lambda>s. 46 \<in> set s) (map id_text (domain_candidates U root fs)) of
        [] \<Rightarrow> None
      | s # _ \<Rightarrow> Some (takeWhile (\<lambda>c. c \<noteq> 46) s))"

text \<open>The hypotheses under which the strategies are stated: the parser raises on no file of
  the pack, the identifier of every record is a string, and a manifest whose mapping has a
  \<open>pack_id\<close> has an \<open>id\<close> as well.\<close>

definition plain_pack :: "lib \<Rightarrow> pack_dir \<Rightarrow> bool" where
  "plain_pack U p =
     (list_all (\<lambda>f. foreign_error U f = None
                  \<and> (case frontmatter U f of
                       None \<Rightarrow> True
                     | Some d \<Rightarrow> (case d ''id'' of None \<Rightarrow> True | Some v \<Rightarrow> (case v of YStr s \<Rightarrow> True | _ \<Rightarrow> False))))
        (entries p)
      \<and> (case manifest_of p of
            None \<Rightarrow> True
          | Some m \<Rightarrow>
              (case frontmatter U m of
                 None \<Rightarrow> True
               | Some d \<Rightarrow> d ''pack_id'' = None \<or> d ''id'' \<noteq> None)))"

subsection \<open>The wording of the specification, for comparison\<close>

text \<open>A block that begins with a line of exactly \<open>---\<close> and is closed by a line of exactly
  \<open>---\<close>.\<close>

definition exact_block :: "ustr \<Rightarrow> bool" where
  "exact_block c =
     (case split_on 10 c of [] \<Rightarrow> False | first # rest \<Rightarrow> first = str ''---'' \<and> str ''---'' \<in> set rest)"

text \<open>The name after both fallbacks as the specification words it: the heading, otherwise the
  base name with the prefix stripped, hyphens turned into spaces, title-cased.\<close>

definition claimed_name :: "lib \<Rightarrow> ustr \<Rightarrow> ustr \<Rightarrow> ustr" where
  "claimed_name U c name =
     (case heading_search c of
        Some g \<Rightarrow> py_strip g
      | None \<Rightarrow> py_title U (hyphens_to_spaces (strip_id_prefix U (stem name))))"

text \<open>The third strategy as the specification words it: the first document other than the
  manifest with a valid record gives the first segment of its identifier.\<close>

definition claimed_third_strategy :: "lib \<Rightarrow> pack_dir \<Rightarrow> ustr option" where
  "claimed_third_strategy U p =
     (case List.map_filter
             (\<lambda>f. if fname f = str ''00-pack-manifest.md'' then None else parsed U (pparts p) f)
             (rglob_md p) of
        [] \<Rightarrow> None
      | fm # _ \<Rightarrow> Some (takeWhile (\<lambda>c. c \<noteq> 46) (id_text fm)))"

subsection \<open>A sample pack\<close>

text \<open>
  Three entity files, a template, the manifest and an unreadable file. The sample library
  returns what \<^verbatim>\<open>yaml.safe_load\<close> returns on the metadata blocks of the examples; the texts of
  the examples are ASCII and their identifiers are strings, so that nothing is asked of its
  other four fields. The run date is 2024-06-01, 159 days after 2023-12-25 and 90 days after
  2024-03-03.
\<close>

definition sample_load :: "ustr \<Rightarrow> loaded" where
  "sample_load block =
     (if block = str ''id: DP.M.001\<newline>last_updated: 2023-12-25''
      then Dict [''id'' \<mapsto> YStr (str ''DP.M.001''), ''last_updated'' \<mapsto> YDate (Date 2023 12 25)]
      else if block = str ''id: DP.CHR.002\<newline>name: Latency\<newline>summary: How fast\<newline>status: active''
      then Dict [''id'' \<mapsto> YStr (str ''DP.CHR.002''), ''name'' \<mapsto> YStr (str ''Latency''),
                 ''summary'' \<mapsto> YStr (str ''How fast''), ''status'' \<mapsto> YStr (str ''active'')]
      else if block = str ''id: NOTES\<newline>summary: Loose notes\<newline>last_updated: !!str 2024-03-03''
      then Dict [''id'' \<mapsto> YStr (str ''NOTES''), ''summary'' \<mapsto> YStr (str ''Loose notes''),
                 ''last_updated'' \<mapsto> YStr (str ''2024-03-03'')]
      else if block = str ''id: DP.MAP.001\<newline>name: Pack Navigation Map\<newline>scope: full-pack\<newline>created: 2024-06-01\<newline>last_updated: 2024-06-01\<newline>generated: true''
      then Dict [''id'' \<mapsto> YStr (str ''DP.MAP.001''), ''name'' \<mapsto> YStr (str ''Pack Navigation Map''),
                 ''scope'' \<mapsto> YStr (str ''full-pack''), ''created'' \<mapsto> YDate (Date 2024 6 1),
                 ''last_updated'' \<mapsto> YDate (Date 2024 6 1), ''generated'' \<mapsto> YBool True]
      else if block = str ''id: DP.M.004\<newline>summary: Review\<newline>last_updated: 2023-12-25 10:30:00''
      then Dict [''id'' \<mapsto> YStr (str ''DP.M.004''), ''summary'' \<mapsto> YStr (str ''Review''),
                 ''last_updated'' \<mapsto> YDateTime (str ''2023-12-25 10:30:00'')]
      else if block = str ''id: DP.OA.003\<newline>name: Queue\<newline>status: draft''
      then Dict [''id'' \<mapsto> YStr (str ''DP.OA.003''), ''name'' \<mapsto> YStr (str ''Queue''),
                 ''status'' \<mapsto> YStr (str ''draft'')]
      else if block = str ''id: TP.M.009\<newline>name: Draft''
      then Dict [''id'' \<mapsto> YStr (str ''TP.M.009''), ''name'' \<mapsto> YStr (str ''Draft'')]
      else if block = str ''id: DP.M.007\<newline>last_updated: 2024-02-30''
      then Raised ValueError
      else if block = str ''- a list''
      then Not_Dict
      else Yaml_Error)"

definition sample_lib :: lib where
  "sample_lib =
     \<lparr>safe_load = sample_load, decimal = (\<lambda>c. None), str_title = (\<lambda>s. s), str_upper = (\<lambda>s. s),
      sorted_by_id = (\<lambda>es. None)\<rparr>"

definition method_text :: ustr where
  "method_text = str ''---\<newline>id: DP.M.001\<newline>last_updated: 2023-12-25\<newline>---\<newline>\<newline>Steps.''"

definition method_file :: md_file where
  "method_file =
     \<lparr>fdir = [str ''02-methods''], fname = str ''DP.M.001-knowledge-extraction.md'',
      content = Some method_text\<rparr>"

definition chr_file :: md_file where
  "chr_file =
     \<lparr>fdir = [str ''05-characteristics''], fname = str ''DP.CHR.002-latency.md'',
      content = Some (str ''---\<newline>id: DP.CHR.002\<newline>name: Latency\<newline>summary: How fast\<newline>status: active\<newline>---\<newline>'')\<rparr>"

definition notes_text :: ustr where
  "notes_text = str ''---\<newline>id: NOTES\<newline>summary: Loose notes\<newline>last_updated: !!str 2024-03-03\<newline>---\<newline>## [NOTES] Loose Notes\<newline>''"

definition notes_file :: md_file where
  "notes_file = \<lparr>fdir = [], fname = str ''notes.md'', content = Some notes_text\<rparr>"

definition template_file :: md_file where
  "template_file =
     \<lparr>fdir = [], fname = str ''_template.md'',
      content = Some (str ''---\<newline>id: DP.M.001\<newline>last_updated: 2023-12-25\<newline>---\<newline>'')\<rparr>"

definition manifest_text :: ustr where
  "manifest_text = str ''# Manifest\<newline>\<newline>**Pack ID**: `DP`\<newline>''"

definition manifest_file :: md_file where
  "manifest_file = \<lparr>fdir = [], fname = str ''00-pack-manifest.md'', content = Some manifest_text\<rparr>"

definition broken_file :: md_file where
  "broken_file = \<lparr>fdir = [], fname = str ''broken.md'', content = None\<rparr>"

definition sample_pack :: pack_dir where
  "sample_pack =
     \<lparr>pparts = [str ''srv'', str ''digital-platform''],
      entries = [method_file, chr_file, notes_file, template_file, manifest_file, broken_file]\<rparr>"

definition sample_today :: date where
  "sample_today = Date 2024 6 1"

definition sample_method :: entity where
  "sample_method =
     [''id'' \<mapsto> YStr (str ''DP.M.001''), ''last_updated'' \<mapsto> YDate (Date 2023 12 25),
      ''_filepath'' \<mapsto> YStr (str ''/srv/digital-platform/02-methods/DP.M.001-knowledge-extraction.md''),
      ''name'' \<mapsto> YStr (str ''Knowledge Extraction'')]"

definition sample_chr :: entity where
  "sample_chr =
     [''id'' \<mapsto> YStr (str ''DP.CHR.002''), ''name'' \<mapsto> YStr (str ''Latency''),
      ''summary'' \<mapsto> YStr (str ''How fast''), ''status'' \<mapsto> YStr (str ''active''),
      ''_filepath'' \<mapsto> YStr (str ''/srv/digital-platform/05-characteristics/DP.CHR.002-latency.md'')]"

definition sample_notes :: entity where
  "sample_notes =
     [''id'' \<mapsto> YStr (str ''NOTES''), ''summary'' \<mapsto> YStr (str ''Loose notes''),
      ''last_updated'' \<mapsto> YStr (str ''2024-03-03''),
      ''_filepath'' \<mapsto> YStr (str ''/srv/digital-platform/notes.md''),
      ''name'' \<mapsto> YStr (str ''Loose Notes'')]"

definition sample_lines :: "ustr list" where
  "sample_lines =
     [str ''---'', str ''id: DP.MAP.001'', str ''name: Pack Navigation Map'', str ''scope: full-pack'',
      str ''created: 2024-06-01'', str ''last_updated: 2024-06-01'', str ''generated: true'',
      str ''---'', str '''',
      str ''# [DP.MAP.001] Pack Navigation Map'', str '''',
      str ''> Auto-generated from frontmatter on 2024-06-01. Do not edit manually.'', str '''',
      str ''---'', str '''',
      str ''## Statistics'', str '''',
      str ''| Kind | Count |'', str ''|------|-------|'',
      str ''| Characteristics (CHR) | 1 |'',
      str ''| Methods (M) | 1 |'',
      str ''| UNKNOWN (UNKNOWN) | 1 |'',
      str ''| **Total** | **3** |'', str '''',
      str ''## Methods'', str '''',
      str ''| ID | Name | Summary | Status |'', str ''|----|------|---------|--------|'',
      str ''| DP.M.001 | Knowledge Extraction | '' @ dash @ str '' | '' @ dash @ str '' |'', str '''',
      str ''## Domain-Specific Entities'', str '''',
      str ''### UNKNOWN'', str '''',
      str ''| ID | Name | Summary | Status |'', str ''|----|------|---------|--------|'',
      str ''| NOTES | Loose Notes | Loose notes | '' @ dash @ str '' |'', str '''',
      str ''## Warnings'', str '''',
      str ''- Missing `summary`: DP.M.001 (DP.M.001-knowledge-extraction.md)'', str '''',
      str ''## Staleness Warnings (>90 days since update)'', str '''',
      str ''| ID | Days Since Update |'', str ''|----|-------------------|'',
      str ''| DP.M.001 | 159 |'', str '''',
      str ''---'', str '''',
      str ''*Generated by `scripts/generate-map.py` on 2024-06-01*'']"

text \<open>The record of the map file that a run on the sample pack writes, and the Entity Index
  of the pack after that write.\<close>

definition map_block :: ustr where
  "map_block = str ''id: DP.MAP.001\<newline>name: Pack Navigation Map\<newline>scope: full-pack\<newline>created: 2024-06-01\<newline>last_updated: 2024-06-01\<newline>generated: true''"

definition sample_map_record :: entity where
  "sample_map_record =
     [''id'' \<mapsto> YStr (str ''DP.MAP.001''), ''name'' \<mapsto> YStr (str ''Pack Navigation Map''),
      ''scope'' \<mapsto> YStr (str ''full-pack''), ''created'' \<mapsto> YDate (Date 2024 6 1),
      ''last_updated'' \<mapsto> YDate (Date 2024 6 1), ''generated'' \<mapsto> YBool True,
      ''_filepath'' \<mapsto> YStr (str ''/srv/digital-platform/07-map/DP.MAP.001.md'')]"

definition index_head :: "ustr list" where
  "index_head =
     [str ''## Entity Index'', str '''', str ''| ID | Name | Kind | Summary | Status |'',
      str ''|----|------|------|---------|--------|'']"

definition sample_index_after :: "ustr list" where
  "sample_index_after =
     index_head
     @ [str ''| DP.CHR.002 | Latency | CHR | How fast | active |'',
        str ''| DP.M.001 | Knowledge Extraction | M | '' @ dash @ str '' | '' @ dash @ str '' |'',
        str ''| DP.MAP.001 | Pack Navigation Map | MAP | '' @ dash @ str '' | '' @ dash @ str '' |'',
        str ''| NOTES | Loose Notes | UNKNOWN | Loose notes | '' @ dash @ str '' |'']"

subsection \<open>More sample files\<close>

text \<open>
  A file with loose delimiters (two spaces after the opening \<open>---\<close>, a closing line that
  only starts with \<open>---\<close>), and one with a no-break space, a space and an empty line after
  the opening \<open>---\<close>, whose block is a list; a file whose name is nothing but an
  identifier; a pack without a manifest whose first record has an identifier without a dot,
  and one whose first record stands in an underscore file; a record of kind \<open>OA\<close> without a
  summary; a record whose \<open>last_updated\<close> carries a time of day; a record whose
  \<open>last_updated\<close> is a date that does not exist; a pack whose files hold no record; and the
  world of the runs on these packs.
\<close>

definition lax_text :: ustr where
  "lax_text = str ''---  \<newline>id: DP.M.001\<newline>last_updated: 2023-12-25\<newline>---- end of metadata\<newline>Steps.''"

definition lax_file :: md_file where
  "lax_file =
     \<lparr>fdir = [str ''02-methods''], fname = str ''DP.M.001-knowledge-extraction.md'',
      content = Some lax_text\<rparr>"

definition nbsp_text :: ustr where
  "nbsp_text = str ''---'' @ [160, 32] @ str ''\<newline>\<newline>- a list\<newline>---''"

definition nbsp_file :: md_file where
  "nbsp_file = \<lparr>fdir = [], fname = str ''list.md'', content = Some nbsp_text\<rparr>"

definition bare_file :: md_file where
  "bare_file = \<lparr>fdir = [str ''02-methods''], fname = str ''DP.M.001.md'', content = Some method_text\<rparr>"

definition bare_method :: entity where
  "bare_method =
     [''id'' \<mapsto> YStr (str ''DP.M.001''), ''last_updated'' \<mapsto> YDate (Date 2023 12 25),
      ''_filepath'' \<mapsto> YStr (str ''/srv/digital-platform/02-methods/DP.M.001.md'')]"

definition early_notes_file :: md_file where
  "early_notes_file = \<lparr>fdir = [], fname = str ''01-notes.md'', content = Some notes_text\<rparr>"

definition early_notes :: entity where
  "early_notes =
     [''id'' \<mapsto> YStr (str ''NOTES''), ''summary'' \<mapsto> YStr (str ''Loose notes''),
      ''last_updated'' \<mapsto> YStr (str ''2024-03-03''),
      ''_filepath'' \<mapsto> YStr (str ''/srv/digital-platform/01-notes.md''),
      ''name'' \<mapsto> YStr (str ''Loose Notes'')]"

definition unlabelled_pack :: pack_dir where
  "unlabelled_pack =
     \<lparr>pparts = [str ''srv'', str ''digital-platform''], entries = [method_file, early_notes_file]\<rparr>"

definition draft_file :: md_file where
  "draft_file =
     \<lparr>fdir = [str ''01-drafts''], fname = str ''_draft.md'',
      content = Some (str ''---\<newline>id: TP.M.009\<newline>name: Draft\<newline>---\<newline>'')\<rparr>"

definition draft_record :: entity where
  "draft_record =
     [''id'' \<mapsto> YStr (str ''TP.M.009''), ''name'' \<mapsto> YStr (str ''Draft''),
      ''_filepath'' \<mapsto> YStr (str ''/srv/digital-platform/01-drafts/_draft.md'')]"

definition draft_pack :: pack_dir where
  "draft_pack =
     \<lparr>pparts = [str ''srv'', str ''digital-platform''], entries = [method_file, draft_file]\<rparr>"

definition oa_file :: md_file where
  "oa_file =
     \<lparr>fdir = [str ''04-objects''], fname = str ''DP.OA.003-queue.md'',
      content = Some (str ''---\<newline>id: DP.OA.003\<newline>name: Queue\<newline>status: draft\<newline>---\<newline>'')\<rparr>"

definition oa_record :: entity where
  "oa_record =
     [''id'' \<mapsto> YStr (str ''DP.OA.003''), ''name'' \<mapsto> YStr (str ''Queue''),
      ''status'' \<mapsto> YStr (str ''draft''),
      ''_filepath'' \<mapsto> YStr (str ''/srv/digital-platform/04-objects/DP.OA.003-queue.md'')]"

definition oa_pack :: pack_dir where
  "oa_pack = \<lparr>pparts = [str ''srv'', str ''digital-platform''], entries = [oa_file]\<rparr>"

definition oa_lines :: "ustr list" where
  "oa_lines =
     [str ''---'', str ''id: DP.MAP.001'', str ''name: Pack Navigation Map'', str ''scope: full-pack'',
      str ''created: 2024-06-01'', str ''last_updated: 2024-06-01'', str ''generated: true'',
      str ''---'', str '''',
      str ''# [DP.MAP.001] Pack Navigation Map'', str '''',
      str ''> Auto-generated from frontmatter on 2024-06-01. Do not edit manually.'', str '''',
      str ''---'', str '''',
      str ''## Statistics'', str '''',
      str ''| Kind | Count |'', str ''|------|-------|'',
      str ''| Objects of Attention (OA) | 1 |'',
      str ''| **Total** | **1** |'', str '''',
      str ''## Warnings'', str '''',
      str ''- Missing `summary`: DP.OA.003 (DP.OA.003-queue.md)'', str '''',
      str ''---'', str '''',
      str ''*Generated by `scripts/generate-map.py` on 2024-06-01*'']"

definition timed_file :: md_file where
  "timed_file =
     \<lparr>fdir = [str ''02-methods''], fname = str ''DP.M.004-review.md'',
      content = Some (str ''---\<newline>id: DP.M.004\<newline>summary: Review\<newline>last_updated: 2023-12-25 10:30:00\<newline>---\<newline>'')\<rparr>"

definition timed_record :: entity where
  "timed_record =
     [''id'' \<mapsto> YStr (str ''DP.M.004''), ''summary'' \<mapsto> YStr (str ''Review''),
      ''last_updated'' \<mapsto> YDateTime (str ''2023-12-25 10:30:00''),
      ''_filepath'' \<mapsto> YStr (str ''/srv/digital-platform/02-methods/DP.M.004-review.md''),
      ''name'' \<mapsto> YStr (str ''Review'')]"

definition timed_pack :: pack_dir where
  "timed_pack = \<lparr>pparts = [str ''srv'', str ''digital-platform''], entries = [timed_file]\<rparr>"

definition impossible_file :: md_file where
  "impossible_file =
     \<lparr>fdir = [str ''02-methods''], fname = str ''DP.M.007-plan.md'',
      content = Some (str ''---\<newline>id: DP.M.007\<newline>last_updated: 2024-02-30\<newline>---\<newline>'')\<rparr>"

definition impossible_pack :: pack_dir where
  "impossible_pack = \<lparr>pparts = [str ''srv'', str ''digital-platform''], entries = [impossible_file]\<rparr>"

definition recordless_pack :: pack_dir where
  "recordless_pack =
     \<lparr>pparts = [str ''srv'', str ''digital-platform''],
      entries = [nbsp_file, manifest_file, broken_file]\<rparr>"

definition sample_resolve :: "ustr \<Rightarrow> resolved" where
  "sample_resolve arg =
     (if arg = str ''pack'' then Directory sample_pack
      else if arg = str ''recordless'' then Directory recordless_pack
      else if arg = str ''timed'' then Directory timed_pack
      else if arg = str ''impossible'' then Directory impossible_pack
      else Not_Directory (str ''/srv/'' @ arg))"

text \<open>The map of a pack without records.\<close>

definition zero_map :: "date \<Rightarrow> ustr \<Rightarrow> ustr" where
  "zero_map today domain =
     join [10]
       (header_lines (isoformat today) domain @ [str ''| **Total** | **0** |'', str '''']
        @ footer_lines (isoformat today))"

section \<open>Properties\<close>

subsection \<open>The walks\<close>

lemma parse_frontmatter_cases:
  "parse_frontmatter U root f =
     (case foreign_error U f of Some err \<Rightarrow> Inl err | None \<Rightarrow> Inr (parsed U root f))"
  by (auto simp: parse_frontmatter_def foreign_error_def parsed_def Let_def
      split: option.splits loaded.splits)

lemma parsed_frontmatter:
  "parsed U root f =
     (case frontmatter U f of
        None \<Rightarrow> None
      | Some d \<Rightarrow>
          if d ''id'' = None then None
          else if d ''name'' = None
          then Some (derive_name U (the (content f)) (fname f)
                       (d(''_filepath'' \<mapsto> YStr (path_str (root @ fparts f)))))
          else Some (d(''_filepath'' \<mapsto> YStr (path_str (root @ fparts f)))))"
  by (auto simp: parse_frontmatter_def frontmatter_def parsed_def Let_def
      split: option.splits loaded.splits)

lemma derive_name_id: "derive_name U c name d ''id'' = d ''id''"
  by (simp add: derive_name_def Let_def split: option.splits)

lemma parsed_id:
  "parsed U root f = Some fm \<Longrightarrow> \<exists>d. frontmatter U f = Some d \<and> fm ''id'' = d ''id'' \<and> d ''id'' \<noteq> None"
  by (auto simp: parsed_frontmatter derive_name_id split: option.splits if_splits)

lemma collected_files_Cons:
  "collected_files U root (f # fs) =
     (if skipped f then collected_files U root fs
      else case parsed U root f of None \<Rightarrow> collected_files U root fs
           | Some fm \<Rightarrow> (fm, f) # collected_files U root fs)"
  by (simp add: collected_files_def List.map_filter_simps split: option.splits)

lemma collected_files_Nil: "collected_files U root [] = []"
  by (simp add: collected_files_def List.map_filter_simps)

lemma walk_error_Cons:
  "walk_error U (f # fs) =
     (if skipped f then walk_error U fs
      else case foreign_error U f of Some err \<Rightarrow> Some err | None \<Rightarrow> walk_error U fs)"
  by (auto simp: walk_error_def split: option.splits)

lemma walk_error_Nil: "walk_error U [] = None"
  by (simp add: walk_error_def)

lemma map_walk_collected:
  "map_walk U root fs es ws =
     (case walk_error U fs of
        Some err \<Rightarrow> Inl err
      | None \<Rightarrow>
          Inr (es @ map fst (collected_files U root fs),
               ws @ map (\<lambda>(fm, f). warning_text fm f)
                      (filter (\<lambda>(fm, f). fm ''summary'' = None) (collected_files U root fs))))"
proof (induction fs arbitrary: es ws)
  case Nil
  show ?case by (simp add: collected_files_Nil walk_error_Nil)
next
  case (Cons f fs)
  show ?case
  proof (cases "skipped f")
    case True
    then have h: "map_walk U root (f # fs) es ws = map_walk U root fs es ws"
      by (auto simp: skipped_def)
    from True have c: "collected_files U root (f # fs) = collected_files U root fs"
      and w: "walk_error U (f # fs) = walk_error U fs"
      by (simp_all add: collected_files_Cons walk_error_Cons)
    show ?thesis
      unfolding h Cons c w by (rule refl)
  next
    case False
    then have ns: "\<not> startswith (str ''_'') (fname f)"
      "fname f \<notin> set [str ''00-pack-manifest.md'', str ''ontology.md'']"
      by (auto simp: skipped_def)
    show ?thesis
    proof (cases "foreign_error U f")
      case (Some err)
      with False ns show ?thesis
        by (simp add: walk_error_Cons parse_frontmatter_cases)
    next
      case None
      with False ns show ?thesis
        by (cases "parsed U root f")
           (simp_all add: walk_error_Cons collected_files_Cons parse_frontmatter_cases Cons
              split: option.splits)
    qed
  qed
qed

lemma index_walk_collected:
  "index_walk U root fs es =
     (case walk_error U fs of
        Some err \<Rightarrow> Inl err
      | None \<Rightarrow> Inr (es @ map fst (collected_files U root fs)))"
proof (induction fs arbitrary: es)
  case Nil
  show ?case by (simp add: collected_files_Nil walk_error_Nil)
next
  case (Cons f fs)
  show ?case
  proof (cases "skipped f")
    case True
    then have h: "index_walk U root (f # fs) es = index_walk U root fs es"
      by (auto simp: skipped_def)
    from True have c: "collected_files U root (f # fs) = collected_files U root fs"
      and w: "walk_error U (f # fs) = walk_error U fs"
      by (simp_all add: collected_files_Cons walk_error_Cons)
    show ?thesis
      unfolding h Cons c w by (rule refl)
  next
    case False
    then have ns: "\<not> startswith (str ''_'') (fname f)"
      "fname f \<notin> set [str ''00-pack-manifest.md'', str ''ontology.md'']"
      by (auto simp: skipped_def)
    show ?thesis
    proof (cases "foreign_error U f")
      case (Some err)
      with False ns show ?thesis
        by (simp add: walk_error_Cons parse_frontmatter_cases)
    next
      case None
      with False ns show ?thesis
        by (cases "parsed U root f")
           (simp_all add: walk_error_Cons collected_files_Cons parse_frontmatter_cases Cons
              split: option.splits)
    qed
  qed
qed

subsection \<open>Grouping by kind\<close>

lemma group_append_keys_old: "k \<in> set (map fst bk) \<Longrightarrow> map fst (group_append k e bk) = map fst bk"
  by (induction bk) force+

lemma group_append_keys_new: "k \<notin> set (map fst bk) \<Longrightarrow> map fst (group_append k e bk) = map fst bk @ [k]"
  by (induction bk) auto

lemma group_append_keys:
  "map fst (group_append k e bk) = (if k \<in> set (map fst bk) then map fst bk else map fst bk @ [k])"
  by (simp add: group_append_keys_old group_append_keys_new)

lemma group_append_distinct:
  "distinct (map fst bk) \<Longrightarrow> distinct (map fst (group_append k e bk))"
  by (simp add: group_append_keys)

lemma group_append_group_of:
  "group_of (group_append k e bk) k' = (if k' = k then group_of bk k @ [e] else group_of bk k')"
  by (induction bk) (auto simp: group_of_def)

lemma group_append_dom:
  "map_of (group_append k e bk) k' = None \<longleftrightarrow> k' \<noteq> k \<and> map_of bk k' = None"
proof -
  have "set (map fst (group_append k e bk)) = insert k (set (map fst bk))"
    by (simp add: group_append_keys insert_absorb)
  then have "fst ` set (group_append k e bk) = insert k (fst ` set bk)"
    by simp
  then show ?thesis
    by (simp add: map_of_eq_None_iff)
qed

lemma by_kind_loop_strs:
  "by_kind_loop es acc = Inr bk \<Longrightarrow> list_all is_str_id es"
  by (induction es arbitrary: acc) (auto simp: is_str_id_def split: option.splits yaml.splits)

lemma by_kind_loop_total:
  "list_all is_str_id es \<Longrightarrow> \<exists>bk. by_kind_loop es acc = Inr bk"
  by (induction es arbitrary: acc) (auto simp: is_str_id_def split: option.splits yaml.splits)

lemma str_id_kind: "e ''id'' = Some (YStr s) \<Longrightarrow> kind_of e = classify_kind s"
  by (simp add: kind_of_def id_text_def)

lemma by_kind_loop_group_of:
  "by_kind_loop es acc = Inr bk \<Longrightarrow> group_of bk k = group_of acc k @ filter (\<lambda>e. kind_of e = k) es"
proof (induction es arbitrary: acc)
  case Nil
  then show ?case by simp
next
  case (Cons e es)
  then obtain s where s: "e ''id'' = Some (YStr s)"
    by (auto split: option.splits yaml.splits)
  with Cons.prems have "by_kind_loop es (group_append (classify_kind s) e acc) = Inr bk"
    by simp
  from Cons.IH [OF this] show ?case
    by (auto simp: group_append_group_of str_id_kind [of e s] s)
qed

lemma by_kind_loop_keys:
  "by_kind_loop es acc = Inr bk \<Longrightarrow> set (map fst bk) = set (map fst acc) \<union> kind_of ` set es"
proof (induction es arbitrary: acc)
  case Nil
  then show ?case by simp
next
  case (Cons e es)
  then obtain s where s: "e ''id'' = Some (YStr s)"
    by (auto split: option.splits yaml.splits)
  with Cons.prems have "by_kind_loop es (group_append (classify_kind s) e acc) = Inr bk"
    by simp
  from Cons.IH [OF this] show ?case
    by (auto simp: group_append_keys str_id_kind [of e s] s)
qed

lemma by_kind_loop_distinct:
  "by_kind_loop es acc = Inr bk \<Longrightarrow> distinct (map fst acc) \<Longrightarrow> distinct (map fst bk)"
proof (induction es arbitrary: acc)
  case Nil
  then show ?case by simp
next
  case (Cons e es)
  then obtain s where s: "e ''id'' = Some (YStr s)"
    by (auto split: option.splits yaml.splits)
  with Cons.prems have "by_kind_loop es (group_append (classify_kind s) e acc) = Inr bk"
    by simp
  from Cons.IH [OF this] Cons.prems(2) show ?case
    by (simp add: group_append_distinct)
qed

lemma map_of_keys: "map_of bk k = None \<longleftrightarrow> k \<notin> set (map fst bk)"
  by (simp add: map_of_eq_None_iff)

lemma by_kind_groups:
  assumes "by_kind_loop es [] = Inr bk"
  shows "group_of bk k = filter (\<lambda>e. kind_of e = k) es"
    and "set (map fst bk) = kind_of ` set es"
    and "distinct (map fst bk)"
  using by_kind_loop_group_of [OF assms, of k] by_kind_loop_keys [OF assms] by_kind_loop_distinct [OF assms]
  by (simp_all add: group_of_def)

lemma length_filter_disj:
  "(\<And>x. x \<in> set xs \<Longrightarrow> \<not> (P x \<and> Q x)) \<Longrightarrow>
   length (filter P xs) + length (filter Q xs) = length (filter (\<lambda>x. P x \<or> Q x) xs)"
  by (induction xs) auto

lemma sum_group_lengths:
  "distinct ks \<Longrightarrow> (\<Sum>k\<leftarrow>ks. length (filter (\<lambda>e. f e = k) es)) = length (filter (\<lambda>e. f e \<in> set ks) es)"
proof (induction ks)
  case Nil
  show ?case by simp
next
  case (Cons k ks)
  have "length (filter (\<lambda>e. f e = k) es) + length (filter (\<lambda>e. f e \<in> set ks) es)
        = length (filter (\<lambda>e. f e = k \<or> f e \<in> set ks) es)"
    using Cons.prems by (intro length_filter_disj) auto
  with Cons show ?case by simp
qed

subsection \<open>Staleness and the parts of the map\<close>

lemma strptime_empty: "strptime_ymd U [] = None"
  by (simp add: strptime_ymd_def re_ymd_def re_year_def)

lemma stale_loop_step:
  "stale_loop U today (e # es) acc =
     (if is_datetime e then Inl TypeError else stale_loop U today es (acc @ stale_of U today e))"
proof (cases "e ''last_updated''")
  case None
  then show ?thesis by (simp add: stale_of_def last_update_def is_datetime_def)
next
  case (Some v)
  show ?thesis
  proof (cases v)
    case (YStr s)
    with Some show ?thesis
      by (cases "strptime_ymd U s")
         (auto simp: stale_of_def last_update_def stale_entry_def Let_def strptime_empty is_datetime_def)
  next
    case (YDate d)
    with Some show ?thesis
      by (auto simp: stale_of_def last_update_def stale_entry_def Let_def is_datetime_def)
  qed (use Some in \<open>auto simp: stale_of_def last_update_def is_datetime_def\<close>)
qed

lemma stale_loop_eq:
  "stale_loop U today es acc =
     (if list_ex is_datetime es then Inl TypeError
      else Inr (acc @ concat (map (stale_of U today) es)))"
proof (induction es arbitrary: acc)
  case Nil
  show ?case by simp
next
  case (Cons e es)
  show ?case unfolding stale_loop_step Cons by simp
qed

lemma by_kind_loop_Inr:
  "list_all is_str_id es \<Longrightarrow> by_kind_loop es acc \<noteq> Inl err"
  using by_kind_loop_total [of es acc] by auto

lemma generate_map_lines:
  "generate_map U today p domain = Inr txt \<longleftrightarrow>
     (\<exists>lines. map_lines U today p domain = Inr lines \<and> txt = join [10] lines)"
  by (auto simp: generate_map_def split: sum.splits)

lemma map_lines_parts:
  assumes "map_lines U today p domain = Inr lines"
  shows "\<exists>bk stale.
     walk_error U (rglob_md p) = None
     \<and> by_kind_loop (map fst (collected_files U (pparts p) (rglob_md p))) [] = Inr bk
     \<and> \<not> list_ex is_datetime (map fst (collected_files U (pparts p) (rglob_md p)))
     \<and> stale = concat (map (stale_of U today) (map fst (collected_files U (pparts p) (rglob_md p))))
     \<and> lines = header_lines (isoformat today) domain
         @ stats_lines bk (map fst (collected_files U (pparts p) (rglob_md p)))
         @ known_sections bk
         @ extended_sections bk
         @ warning_lines (map (\<lambda>(fm, f). warning_text fm f)
              (filter (\<lambda>(fm, f). fm ''summary'' = None) (collected_files U (pparts p) (rglob_md p))))
         @ stale_lines stale
         @ footer_lines (isoformat today)"
  using assms
  by (auto simp: map_lines_def map_walk_collected stale_loop_eq split: sum.splits option.splits if_splits)

lemma map_of_filter_key:
  "P k \<Longrightarrow> map_of (filter (\<lambda>(k, v). P k) bk) k = map_of bk k"
  by (induction bk) auto

lemma extended_group_of:
  "k \<notin> set base_kinds \<Longrightarrow> group_of (extended bk) k = group_of bk k"
  by (simp add: group_of_def extended_def map_of_filter_key [where P = "\<lambda>k. k \<notin> set base_kinds"])

lemma extended_keys: "set (map fst (extended bk)) = {k \<in> set (map fst bk). k \<notin> set base_kinds}"
  by (auto simp: extended_def)


subsection \<open>The sample pack, evaluated\<close>

lemma sample_rglob:
  "rglob_md sample_pack = [manifest_file, method_file, chr_file, template_file, broken_file, notes_file]"
proof -
  have "rglob_md \<lparr>pparts = r, entries = [\<lparr>fdir = [str ''02-methods''], fname = str ''DP.M.001-knowledge-extraction.md'', content = c1\<rparr>,
     \<lparr>fdir = [str ''05-characteristics''], fname = str ''DP.CHR.002-latency.md'', content = c2\<rparr>,
     \<lparr>fdir = [], fname = str ''notes.md'', content = c3\<rparr>,
     \<lparr>fdir = [], fname = str ''_template.md'', content = c4\<rparr>,
     \<lparr>fdir = [], fname = str ''00-pack-manifest.md'', content = c5\<rparr>,
     \<lparr>fdir = [], fname = str ''broken.md'', content = c6\<rparr>]\<rparr>
    = [\<lparr>fdir = [], fname = str ''00-pack-manifest.md'', content = c5\<rparr>,
       \<lparr>fdir = [str ''02-methods''], fname = str ''DP.M.001-knowledge-extraction.md'', content = c1\<rparr>,
     \<lparr>fdir = [str ''05-characteristics''], fname = str ''DP.CHR.002-latency.md'', content = c2\<rparr>,
     \<lparr>fdir = [], fname = str ''_template.md'', content = c4\<rparr>,
     \<lparr>fdir = [], fname = str ''broken.md'', content = c6\<rparr>,
     \<lparr>fdir = [], fname = str ''notes.md'', content = c3\<rparr>]" for r c1 c2 c3 c4 c5 c6
    by (simp add: rglob_md_def endswith_def fparts_def str_def)
  then show ?thesis
    by (simp add: sample_pack_def method_file_def chr_file_def notes_file_def template_file_def manifest_file_def broken_file_def)
qed

lemmas text_defs = str_def startswith_def endswith_def is_space_def is_AZ_def is_az_def
  lit_def many1_then_def opt_then_def rest_of_line_def

lemmas parse_defs = parse_frontmatter_def fm_match_def heading_search_def heading_at_def
  derive_name_def strip_id_prefix_def id_prefix_rest_def stem_def rfind_def is_digit_def
  digit_val_def py_title_def py_strip_def hyphens_to_spaces_def is_ascii_def to_upper_def
  to_lower_def path_str_def fparts_def Let_def

lemma sample_root: "pparts sample_pack = [str ''srv'', str ''digital-platform'']"
  by (simp add: sample_pack_def)

lemma sample_safe_load: "safe_load sample_lib = sample_load"
  by (simp add: sample_lib_def)

lemma method_fm: "fm_match method_text = Some (str ''id: DP.M.001\<newline>last_updated: 2023-12-25'')"
  by (simp add: method_text_def fm_match_def text_defs)

lemma method_heading: "heading_search method_text = None"
  by (simp add: method_text_def heading_search_def heading_at_def text_defs)

lemma method_slug:
  "strip_id_prefix U (stem (str ''DP.M.001-knowledge-extraction.md'')) = str ''knowledge-extraction''"
  by (simp add: parse_defs text_defs)

lemma method_title:
  "py_title U (hyphens_to_spaces (str ''knowledge-extraction'')) = str ''Knowledge Extraction''"
  by (simp add: parse_defs text_defs)

lemma load_method:
  "sample_load (str ''id: DP.M.001\<newline>last_updated: 2023-12-25'') =
     Dict [''id'' \<mapsto> YStr (str ''DP.M.001''), ''last_updated'' \<mapsto> YDate (Date 2023 12 25)]"
  by (simp add: sample_load_def)

lemma method_parse:
  "parse_frontmatter sample_lib [str ''srv'', str ''digital-platform''] method_file = Inr (Some sample_method)"
proof -
  have c: "content method_file = Some method_text" "fname method_file = str ''DP.M.001-knowledge-extraction.md''"
    by (simp_all add: method_file_def)
  have p: "path_str (str ''srv'' # str ''digital-platform'' # fparts method_file)
     = str ''/srv/digital-platform/02-methods/DP.M.001-knowledge-extraction.md''"
    by (simp add: method_file_def fparts_def path_str_def str_def)
  have n: "str ''knowledge-extraction'' \<noteq> []"
    by (simp add: str_def)
  show ?thesis
    by (simp add: parse_frontmatter_def c method_fm sample_safe_load load_method
        p derive_name_def method_heading method_slug method_title sample_method_def Let_def n)
qed

lemma chr_parse:
  "parse_frontmatter sample_lib [str ''srv'', str ''digital-platform''] chr_file = Inr (Some sample_chr)"
  by (simp add: chr_file_def sample_chr_def sample_lib_def sample_load_def parse_defs text_defs)

lemma notes_fm:
  "fm_match notes_text = Some (str ''id: NOTES\<newline>summary: Loose notes\<newline>last_updated: !!str 2024-03-03'')"
  by (simp add: notes_text_def fm_match_def text_defs)

lemma notes_heading: "heading_search notes_text = Some (str ''Loose Notes'')"
  by (simp add: notes_text_def heading_search_def heading_at_def text_defs)

lemma notes_strip: "py_strip (str ''Loose Notes'') = str ''Loose Notes''"
  by (simp add: py_strip_def text_defs)

lemma load_notes:
  "sample_load (str ''id: NOTES\<newline>summary: Loose notes\<newline>last_updated: !!str 2024-03-03'') =
     Dict [''id'' \<mapsto> YStr (str ''NOTES''), ''summary'' \<mapsto> YStr (str ''Loose notes''),
           ''last_updated'' \<mapsto> YStr (str ''2024-03-03'')]"
  by (simp add: sample_load_def str_def)

lemma notes_parse:
  "parse_frontmatter sample_lib [str ''srv'', str ''digital-platform''] notes_file = Inr (Some sample_notes)"
proof -
  have p: "path_str (str ''srv'' # str ''digital-platform'' # fparts notes_file) = str ''/srv/digital-platform/notes.md''"
    by (simp add: notes_file_def fparts_def path_str_def str_def)
  have c: "content notes_file = Some notes_text"
    by (simp add: notes_file_def)
  show ?thesis
    by (simp add: parse_frontmatter_def c notes_fm sample_safe_load load_notes p derive_name_def
        notes_heading notes_strip sample_notes_def Let_def)
qed

lemma broken_parse: "parse_frontmatter U root broken_file = Inr None"
  by (simp add: parse_frontmatter_def broken_file_def)

lemma manifest_fm: "fm_match manifest_text = None"
  by (simp add: manifest_text_def fm_match_def text_defs)

lemma manifest_parse: "parse_frontmatter U root manifest_file = Inr None"
  by (simp add: parse_frontmatter_def manifest_file_def manifest_fm)

lemma sample_names:
  "fname manifest_file = str ''00-pack-manifest.md''"
  "fname method_file = str ''DP.M.001-knowledge-extraction.md''"
  "fname chr_file = str ''DP.CHR.002-latency.md''"
  "fname template_file = str ''_template.md''"
  "fname broken_file = str ''broken.md''"
  "fname notes_file = str ''notes.md''"
  by (simp_all add: method_file_def chr_file_def notes_file_def template_file_def manifest_file_def broken_file_def)

lemma sample_fields:
  "sample_method ''summary'' = None" "sample_chr ''summary'' \<noteq> None" "sample_notes ''summary'' \<noteq> None"
  "id_text sample_method = str ''DP.M.001''" "id_text sample_chr = str ''DP.CHR.002''"
  "id_text sample_notes = str ''NOTES''"
  by (simp_all add: sample_method_def sample_chr_def sample_notes_def id_text_def)

lemma sample_skips:
  "skipped manifest_file" "\<not> skipped method_file" "\<not> skipped chr_file" "skipped template_file"
  "\<not> skipped broken_file" "\<not> skipped notes_file"
  by (simp_all add: skipped_def sample_names text_defs)

lemma sample_walk:
  "map_walk sample_lib (pparts sample_pack) (rglob_md sample_pack) [] [] =
     Inr ([sample_method, sample_chr, sample_notes],
          [str ''Missing `summary`: DP.M.001 (DP.M.001-knowledge-extraction.md)''])"
proof -
  have s: "startswith (str ''_'') (str ''00-pack-manifest.md'') = False"
    "startswith (str ''_'') (str ''DP.M.001-knowledge-extraction.md'') = False"
    "startswith (str ''_'') (str ''DP.CHR.002-latency.md'') = False"
    "startswith (str ''_'') (str ''_template.md'') = True"
    "startswith (str ''_'') (str ''broken.md'') = False"
    "startswith (str ''_'') (str ''notes.md'') = False"
    "str ''DP.M.001-knowledge-extraction.md'' \<notin> set [str ''00-pack-manifest.md'', str ''ontology.md'']"
    "str ''DP.CHR.002-latency.md'' \<notin> set [str ''00-pack-manifest.md'', str ''ontology.md'']"
    "str ''broken.md'' \<notin> set [str ''00-pack-manifest.md'', str ''ontology.md'']"
    "str ''notes.md'' \<notin> set [str ''00-pack-manifest.md'', str ''ontology.md'']"
    "str ''00-pack-manifest.md'' \<in> set [str ''00-pack-manifest.md'', str ''ontology.md'']"
    by (simp_all add: text_defs)
  have w: "warning_text sample_method method_file
      = str ''Missing `summary`: DP.M.001 (DP.M.001-knowledge-extraction.md)''"
    by (simp add: warning_text_def sample_fields sample_names str_def)
  show ?thesis
    unfolding sample_rglob sample_root
    by (simp add: sample_names s method_parse chr_parse notes_parse broken_parse sample_fields w
        del: set_simps)
qed

lemma sample_ids:
  "sample_method ''id'' = Some (YStr (str ''DP.M.001''))"
  "sample_chr ''id'' = Some (YStr (str ''DP.CHR.002''))"
  "sample_notes ''id'' = Some (YStr (str ''NOTES''))"
  by (simp_all add: sample_method_def sample_chr_def sample_notes_def)

lemma sample_kinds:
  "classify_kind (str ''DP.M.001'') = str ''M''" "classify_kind (str ''DP.CHR.002'') = str ''CHR''"
  "classify_kind (str ''NOTES'') = str ''UNKNOWN''"
  by (simp_all add: classify_kind_def str_def)

lemma sample_by_kind:
  "by_kind_loop [sample_method, sample_chr, sample_notes] [] =
     Inr [(str ''M'', [sample_method]), (str ''CHR'', [sample_chr]), (str ''UNKNOWN'', [sample_notes])]"
proof -
  have d: "str ''M'' \<noteq> str ''CHR''" "str ''M'' \<noteq> str ''UNKNOWN''" "str ''CHR'' \<noteq> str ''UNKNOWN''"
    by (simp_all add: str_def)
  show ?thesis
    by (simp add: sample_ids sample_kinds d)
qed

lemma sample_days:
  "days_between sample_today (Date 2023 12 25) = 159"
  "days_between sample_today (Date 2024 3 3) = 90"
  by (simp_all add: days_between_def sample_today_def toordinal_def days_before_year_def
      days_before_month_def is_leap_def)

lemma notes_date: "strptime_ymd U (str ''2024-03-03'') = Some (Date 2024 3 3)"
  by (simp add: strptime_ymd_def re_ymd_def re_year_def re_month_def re_day_def two_chars_def
      one_char_def digit_in_def blank_def digit_val_def lit_def str_def days_in_month_def)

lemma sample_updates:
  "sample_method ''last_updated'' = Some (YDate (Date 2023 12 25))"
  "sample_chr ''last_updated'' = None"
  "sample_notes ''last_updated'' = Some (YStr (str ''2024-03-03''))"
  by (simp_all add: sample_method_def sample_chr_def sample_notes_def)

lemma sample_last_updates:
  "last_update U sample_method = Some (Date 2023 12 25)"
  "last_update U sample_chr = None"
  "last_update U sample_notes = Some (Date 2024 3 3)"
  by (simp_all add: last_update_def sample_updates notes_date)

lemma sample_stale_of:
  "stale_of U sample_today sample_method = [(str ''DP.M.001'', 159)]"
  "stale_of U sample_today sample_chr = []"
  "stale_of U sample_today sample_notes = []"
  by (simp_all add: stale_of_def sample_last_updates sample_days sample_fields)

lemma sample_no_datetime:
  "\<not> is_datetime sample_method" "\<not> is_datetime sample_chr" "\<not> is_datetime sample_notes"
  by (simp_all add: is_datetime_def sample_updates)

lemma sample_stale:
  "stale_loop U sample_today [sample_method, sample_chr, sample_notes] [] = Inr [(str ''DP.M.001'', 159)]"
  by (simp add: stale_loop_eq sample_no_datetime sample_stale_of)
lemma sample_sorted_kinds: "sort [str ''M'', str ''CHR'', str ''UNKNOWN''] = [str ''CHR'', str ''M'', str ''UNKNOWN'']"
  by (simp add: str_def)

lemma sample_iso: "isoformat sample_today = str ''2024-06-01''"
  by (simp add: isoformat_def sample_today_def zpad_def show_nat.simps str_def)

lemma sample_cells:
  "get_or_dash sample_method ''name'' = str ''Knowledge Extraction''"
  "get_or_dash sample_method ''summary'' = dash"
  "get_or_dash sample_method ''status'' = dash"
  "get_or_dash sample_notes ''name'' = str ''Loose Notes''"
  "get_or_dash sample_notes ''summary'' = str ''Loose notes''"
  "get_or_dash sample_notes ''status'' = dash"
  "get_or_dash sample_chr ''name'' = str ''Latency''"
  "get_or_dash sample_chr ''summary'' = str ''How fast''"
  "get_or_dash sample_chr ''status'' = str ''active''"
  by (simp_all add: get_or_dash_def sample_method_def sample_notes_def sample_chr_def)

lemma sample_rows:
  "entity_row sample_method = str ''| DP.M.001 | Knowledge Extraction | '' @ dash @ str '' | '' @ dash @ str '' |''"
  "entity_row sample_notes = str ''| NOTES | Loose Notes | Loose notes | '' @ dash @ str '' |''"
  "entity_row sample_chr = str ''| DP.CHR.002 | Latency | How fast | active |''"
  by (simp_all add: entity_row_def sample_fields sample_cells str_def)

lemma show_nat_digit: "n < 10 \<Longrightarrow> show_nat n = [48 + n]"
  by (simp add: show_nat.simps)

lemma sample_numbers: "show_int 159 = str ''159''"
  by (simp add: show_nat.simps show_int_def str_def)

lemma sample_map_lines: "map_lines sample_lib sample_today sample_pack (str ''DP'') = Inr sample_lines"
  apply (simp only: map_lines_def sample_walk prod.case sample_by_kind sample_stale sum.case)
  by (simp add: sample_iso
      header_lines_def stats_lines_def stats_row_def group_of_def kind_label_def KIND_LABELS_def
      known_sections_def known_section_def known_kinds_def kind_table_def sample_rows
      extended_sections_def extended_def base_kinds_def extended_subsection_def
      warning_lines_def stale_lines_def stale_row_def footer_lines_def sample_numbers show_nat_digit
      sample_lines_def str_def)

lemma sample_generate_map:
  "generate_map sample_lib sample_today sample_pack (str ''DP'') = Inr (join [10] sample_lines)"
  by (simp add: generate_map_def sample_map_lines)

subsection \<open>Where rows and lines of the map stand\<close>

lemma stats_row_in:
  "k \<in> set (map fst bk) \<Longrightarrow> stats_row k (group_of bk k) \<in> set (stats_lines bk es)"
  by (auto simp: stats_lines_def)

lemma entity_row_in_table: "e \<in> set grp \<Longrightarrow> entity_row e \<in> set (kind_table grp)"
  by (auto simp: kind_table_def)

lemma extended_subsection_in:
  assumes "k \<in> set (map fst (extended bk))"
  shows "set (extended_subsection (extended bk) k) \<subseteq> set (extended_sections bk)"
proof -
  from assms have ne: "extended bk \<noteq> []" by auto
  from assms have "k \<in> set (sort (map fst (extended bk)))" by simp
  then have "set (extended_subsection (extended bk) k)
       \<subseteq> set (concat (map (extended_subsection (extended bk)) (sort (map fst (extended bk)))))"
    by (simp only: set_concat set_map) blast
  with ne show ?thesis by (auto simp: extended_sections_def Let_def)
qed

lemma known_section_in:
  "k \<in> set known_kinds \<Longrightarrow> set (known_section bk k) \<subseteq> set (known_sections bk)"
  by (auto simp: known_sections_def)

lemma total_row_in:
  "str ''| **Total** | **'' @ show_nat (length es) @ str ''** |'' \<in> set (stats_lines bk es)"
  by (simp add: stats_lines_def)

lemma known_row_in:
  assumes "k \<in> set known_kinds" "k \<in> set (map fst bk)" "e \<in> set (group_of bk k)"
  shows "entity_row e \<in> set (known_sections bk)"
proof -
  from assms(2) obtain grp where g: "map_of bk k = Some grp"
    by (cases "map_of bk k") (auto simp: map_of_eq_None_iff)
  with assms(3) have "entity_row e \<in> set (known_section bk k)"
    by (simp add: known_section_def group_of_def entity_row_in_table)
  with known_section_in [OF assms(1), of bk] show ?thesis by blast
qed

lemma extended_row_in:
  assumes "k \<notin> set base_kinds" "k \<in> set (map fst bk)" "e \<in> set (group_of bk k)"
  shows "entity_row e \<in> set (extended_sections bk)"
proof -
  have key: "k \<in> set (map fst (extended bk))"
    using assms(1,2) by (simp only: extended_keys) simp
  have "entity_row e \<in> set (extended_subsection (extended bk) k)"
    using assms(3) by (simp add: extended_subsection_def extended_group_of [OF assms(1)] entity_row_in_table)
  with extended_subsection_in [OF key] show ?thesis by blast
qed

lemma warning_line_in: "w \<in> set ws \<Longrightarrow> str ''- '' @ w \<in> set (warning_lines ws)"
  by (auto simp: warning_lines_def)
lemma counts_sum_to_total:
  assumes "by_kind_loop es [] = Inr bk"
  shows "(\<Sum>k\<leftarrow>sort (map fst bk). length (group_of bk k)) = length es"
proof -
  have d: "distinct (sort (map fst bk))"
    using by_kind_groups(3) [OF assms(1)] by simp
  have s: "set (sort (map fst bk)) = kind_of ` set es"
    using by_kind_groups(2) [OF assms(1)] by simp
  have "(\<Sum>k\<leftarrow>sort (map fst bk). length (group_of bk k))
      = (\<Sum>k\<leftarrow>sort (map fst bk). length (filter (\<lambda>e. kind_of e = k) es))"
    by (simp add: by_kind_groups(1) [OF assms(1)])
  also have "\<dots> = length (filter (\<lambda>e. kind_of e \<in> set (sort (map fst bk))) es)"
    by (rule sum_group_lengths [OF d])
  also have "\<dots> = length es"
    unfolding s by simp
  finally show ?thesis .
qed

lemma tabled_kinds:
  assumes "by_kind_loop es [] = Inr bk"
    and that: "e \<in> set es" "kind_of e \<noteq> str ''CHR''" "kind_of e \<noteq> str ''OA''"
  shows "entity_row e \<in> set (known_sections bk @ extended_sections bk)"
proof -
  have g: "e \<in> set (group_of bk (kind_of e))"
    using that(1) by (simp add: by_kind_groups(1) [OF assms(1)])
  have key: "kind_of e \<in> set (map fst bk)"
    using by_kind_groups(2) [OF assms(1)] that(1) by blast
  have "kind_of e \<in> set known_kinds \<or> kind_of e \<notin> set base_kinds"
    using that(2,3) by (auto simp: known_kinds_def base_kinds_def)
  then show ?thesis
    using known_row_in [OF _ key g] extended_row_in [OF _ key g] by auto
qed

subsection \<open>The claim about the category tables\<close>

text \<open>
  C1. The claim: every collected record appears in exactly one rendered category table and
  the counts of the statistics table sum to the total. On the sample pack the record
  \<open>DP.CHR.002\<close> is collected, classified \<open>CHR\<close> and counted (its statistics row and the
  total of 3 are there), but no line of the map that \<open>generate_map\<close> returns is its row:
  \<open>CHR\<close> (like \<open>OA\<close>) is in \<open>base_kinds\<close> and \<open>KIND_LABELS\<close>, yet not in the list of kinds
  that get a section.
\<close>

theorem chr_record_in_no_table:
  "generate_map sample_lib sample_today sample_pack (str ''DP'') = Inr (join [10] sample_lines)
   \<and> map_lines sample_lib sample_today sample_pack (str ''DP'') = Inr sample_lines
   \<and> map_walk sample_lib (pparts sample_pack) (rglob_md sample_pack) [] []
       = Inr ([sample_method, sample_chr, sample_notes],
              [str ''Missing `summary`: DP.M.001 (DP.M.001-knowledge-extraction.md)''])
   \<and> classify_kind (id_text sample_chr) = str ''CHR''
   \<and> str ''| Characteristics (CHR) | 1 |'' \<in> set sample_lines
   \<and> str ''| **Total** | **3** |'' \<in> set sample_lines
   \<and> entity_row sample_chr = str ''| DP.CHR.002 | Latency | How fast | active |''
   \<and> entity_row sample_chr \<notin> set sample_lines
   \<and> filter (startswith (str ''| DP.CHR.002'')) sample_lines = []"
proof -
  have no: "filter (startswith (str ''| DP.CHR.002'')) sample_lines = []"
    by (simp add: sample_lines_def startswith_def dash_def str_def)
  have nr: "str ''| DP.CHR.002 | Latency | How fast | active |'' \<notin> set sample_lines"
    by (simp add: sample_lines_def dash_def str_def)
  have st: "str ''| Characteristics (CHR) | 1 |'' \<in> set sample_lines"
    "str ''| **Total** | **3** |'' \<in> set sample_lines"
    by (simp_all add: sample_lines_def)
  from no nr st sample_generate_map sample_map_lines sample_walk show ?thesis
    by (simp add: sample_fields sample_kinds sample_rows)
qed

subsection \<open>Splitting on dots\<close>

lemma split_on_nonempty: "split_on c s \<noteq> []"
  by (induction s) (auto split: list.splits)

lemma split_on_no_sep: "g \<in> set (split_on c s) \<Longrightarrow> c \<notin> set g"
  by (induction s arbitrary: g) (auto split: list.splits if_splits)

lemma split_on_join: "join [c] (split_on c s) = s"
proof (induction s)
  case Nil
  show ?case by simp
next
  case (Cons x xs)
  obtain p ps where sp: "split_on c xs = p # ps"
    using split_on_nonempty [of c xs] by (cases "split_on c xs") auto
  show ?case
  proof (cases "x = c")
    case True
    with Cons sp show ?thesis by simp
  next
    case False
    with Cons sp show ?thesis by (cases ps) auto
  qed
qed

lemma split_on_length: "length (split_on c s) = Suc (count_list s c)"
  by (induction s) (auto split: list.splits simp: split_on_nonempty)

text \<open>
  C8. For every identifier string the code cuts it at its dots into dot-free segments (which
  joined by dots give the identifier back, one more segment than dots) and returns the second
  segment when there are at least three, the sentinel \<open>UNKNOWN\<close> otherwise; \<open>DP.WP.014\<close> gives
  \<open>WP\<close>, whose row in the statistics table carries the label \<open>Work Products\<close>.
\<close>

theorem classify_kind_segments:
  "(\<exists>segs. join (str ''.'') segs = s \<and> length segs = Suc (count_list s 46)
       \<and> list_all (\<lambda>g. 46 \<notin> set g) segs
       \<and> classify_kind s = (if 3 \<le> length segs then segs ! 1 else str ''UNKNOWN''))
   \<and> classify_kind (str ''DP.WP.014'') = str ''WP''
   \<and> kind_label (classify_kind (str ''DP.WP.014'')) = str ''Work Products''
   \<and> stats_row (classify_kind (str ''DP.WP.014'')) [e] = str ''| Work Products (WP) | 1 |''"
proof -
  let ?segs = "split_on 46 s"
  have "join (str ''.'') ?segs = s"
    by (simp add: str_def split_on_join)
  moreover have "length ?segs = Suc (count_list s 46)"
    by (rule split_on_length)
  moreover have "list_all (\<lambda>g. 46 \<notin> set g) ?segs"
    by (simp add: list_all_iff split_on_no_sep)
  moreover have "classify_kind s = (if 3 \<le> length ?segs then ?segs ! 1 else str ''UNKNOWN'')"
    by (simp add: classify_kind_def Let_def)
  ultimately have general: "\<exists>segs. join (str ''.'') segs = s \<and> length segs = Suc (count_list s 46)
       \<and> list_all (\<lambda>g. 46 \<notin> set g) segs
       \<and> classify_kind s = (if 3 \<le> length segs then segs ! 1 else str ''UNKNOWN'')"
    by blast
  have ex: "classify_kind (str ''DP.WP.014'') = str ''WP''"
    by (simp add: classify_kind_def str_def)
  have lab: "kind_label (str ''WP'') = str ''Work Products''"
    by (simp add: kind_label_def KIND_LABELS_def str_def)
  have row: "stats_row (str ''WP'') [e] = str ''| Work Products (WP) | 1 |''"
    by (simp add: stats_row_def lab show_nat.simps) (simp add: str_def)
  from general ex lab row show ?thesis by simp
qed

theorem classify_kind_segments_witness:
  "classify_kind (str ''DP.M'') = str ''UNKNOWN'' \<and> classify_kind (str ''DP.M.001'') = str ''M''
   \<and> classify_kind (str ''DP.WP.014'') = str ''WP''"
proof -
  have a: "classify_kind (str ''DP.M'') = str ''UNKNOWN''" by (simp add: classify_kind_def str_def)
  have b: "classify_kind (str ''DP.M.001'') = str ''M''" by (simp add: classify_kind_def str_def)
  from a b classify_kind_segments [of "str ''DP.M''"] show ?thesis by simp
qed

subsection \<open>The claim about records of unknown kind\<close>



subsection \<open>The claim about warnings for a missing summary\<close>

text \<open>
  When \<open>generate_map\<close> returns the map, its warnings section lists one warning for each
  collected record without a \<open>summary\<close>, in the order of the walk, naming its identifier and
  its file name. Every collected record, with or without a summary, is in the group of its
  kind, is counted in the row of its kind and in the total, and its row is in the table of
  its kind whenever that kind gets a table (a known kind, or a kind outside \<open>base_kinds\<close>).
\<close>

lemma missing_summary_warned:
  assumes "generate_map U today p domain = Inr txt"
  shows "\<exists>by_kind stale lines.
           by_kind_loop (map fst (collected_files U (pparts p) (rglob_md p))) [] = Inr by_kind
         \<and> txt = join [10] lines
         \<and> lines = header_lines (isoformat today) domain
              @ stats_lines by_kind (map fst (collected_files U (pparts p) (rglob_md p)))
              @ known_sections by_kind @ extended_sections by_kind
              @ warning_lines
                  (map (\<lambda>(fm, f). str ''Missing `summary`: '' @ id_text fm @ str '' ('' @ fname f @ str '')'')
                     (filter (\<lambda>(fm, f). fm ''summary'' = None)
                        (collected_files U (pparts p) (rglob_md p))))
              @ stale_lines stale @ footer_lines (isoformat today)
         \<and> list_all (\<lambda>(fm, f). fm ''summary'' = None \<longrightarrow>
               str ''- Missing `summary`: '' @ id_text fm @ str '' ('' @ fname f @ str '')'' \<in> set lines)
             (collected_files U (pparts p) (rglob_md p))
         \<and> list_all (\<lambda>(fm, f).
               fm \<in> set (group_of by_kind (kind_of fm))
             \<and> stats_row (kind_of fm) (group_of by_kind (kind_of fm)) \<in> set lines
             \<and> (kind_of fm \<in> set known_kinds \<or> kind_of fm \<notin> set base_kinds
                  \<longrightarrow> entity_row fm \<in> set (known_sections by_kind @ extended_sections by_kind)))
             (collected_files U (pparts p) (rglob_md p))
         \<and> str ''| **Total** | **'' @ show_nat (length (collected_files U (pparts p) (rglob_md p))) @ str ''** |''
              \<in> set lines"
proof -
  let ?cf = "collected_files U (pparts p) (rglob_md p)"
  let ?es = "map fst ?cf"
  let ?ws = "map (\<lambda>(fm, f). str ''Missing `summary`: '' @ id_text fm @ str '' ('' @ fname f @ str '')'')
                     (filter (\<lambda>(fm, f). fm ''summary'' = None) ?cf)"
  have ws: "map (\<lambda>(fm, f). warning_text fm f) (filter (\<lambda>(fm, f). fm ''summary'' = None) ?cf) = ?ws"
    by (simp add: warning_text_def)
  from assms obtain lines where ml: "map_lines U today p domain = Inr lines"
    and tx: "txt = join [10] lines"
    unfolding generate_map_lines by blast
  from map_lines_parts [OF ml] obtain bk stale where
    bk: "by_kind_loop ?es [] = Inr bk" and
    lines: "lines = header_lines (isoformat today) domain @ stats_lines bk ?es @ known_sections bk
       @ extended_sections bk @ warning_lines ?ws @ stale_lines stale @ footer_lines (isoformat today)"
    unfolding ws by auto
  have warned: "str ''- Missing `summary`: '' @ id_text fm @ str '' ('' @ fname f @ str '')'' \<in> set lines"
    if "(fm, f) \<in> set ?cf" "fm ''summary'' = None" for fm f
  proof -
    define w where "w = str ''Missing `summary`: '' @ id_text fm @ str '' ('' @ fname f @ str '')''"
    from that have "(fm, f) \<in> set (filter (\<lambda>(fm, f). fm ''summary'' = None) ?cf)"
      by simp
    then have "(\<lambda>(fm, f). str ''Missing `summary`: '' @ id_text fm @ str '' ('' @ fname f @ str '')'') (fm, f) \<in> set ?ws"
      unfolding set_map by (rule imageI)
    then have "w \<in> set ?ws"
      by (simp only: w_def prod.case)
    then have "str ''- '' @ w \<in> set (warning_lines ?ws)"
      by (rule warning_line_in)
    then have "str ''- '' @ w \<in> set lines"
      unfolding lines by simp
    then show ?thesis by (simp add: w_def str_def)
  qed
  have kept: "fm \<in> set (group_of bk (kind_of fm))
             \<and> stats_row (kind_of fm) (group_of bk (kind_of fm)) \<in> set lines
             \<and> (kind_of fm \<in> set known_kinds \<or> kind_of fm \<notin> set base_kinds
                  \<longrightarrow> entity_row fm \<in> set (known_sections bk @ extended_sections bk))"
    if "(fm, f) \<in> set ?cf" for fm f
  proof -
    from that have fm: "fm \<in> set ?es" by force
    have g: "fm \<in> set (group_of bk (kind_of fm))"
      using fm by (simp add: by_kind_groups(1) [OF bk])
    have key: "kind_of fm \<in> set (map fst bk)"
      using by_kind_groups(2) [OF bk] fm by blast
    have "stats_row (kind_of fm) (group_of bk (kind_of fm)) \<in> set (stats_lines bk ?es)"
      by (rule stats_row_in [OF key])
    then have s: "stats_row (kind_of fm) (group_of bk (kind_of fm)) \<in> set lines"
      unfolding lines by simp
    have "entity_row fm \<in> set (known_sections bk @ extended_sections bk)"
      if "kind_of fm \<in> set known_kinds \<or> kind_of fm \<notin> set base_kinds"
      using that known_row_in [OF _ key g] extended_row_in [OF _ key g] by auto
    with g s show ?thesis by blast
  qed
  have total: "str ''| **Total** | **'' @ show_nat (length ?cf) @ str ''** |'' \<in> set lines"
    using total_row_in [of ?es bk] unfolding lines by simp
  from bk tx lines warned kept total show ?thesis
    by (intro exI [of _ bk] exI [of _ stale] exI [of _ lines] conjI) (auto simp: list_all_iff)
qed

lemma oa_rglob: "rglob_md oa_pack = [oa_file]"
  by (simp add: rglob_md_def oa_pack_def oa_file_def text_defs)

lemma oa_parse:
  "parse_frontmatter sample_lib [str ''srv'', str ''digital-platform''] oa_file = Inr (Some oa_record)"
  by (simp add: oa_file_def oa_record_def sample_lib_def sample_load_def parse_defs text_defs)

lemma oa_fields:
  "oa_record ''summary'' = None" "id_text oa_record = str ''DP.OA.003''"
  "oa_record ''id'' = Some (YStr (str ''DP.OA.003''))" "oa_record ''last_updated'' = None"
  "get_or_dash oa_record ''name'' = str ''Queue''" "get_or_dash oa_record ''summary'' = dash"
  "get_or_dash oa_record ''status'' = str ''draft''"
  by (simp_all add: oa_record_def id_text_def get_or_dash_def)

lemma oa_walk:
  "map_walk sample_lib (pparts oa_pack) (rglob_md oa_pack) [] [] =
     Inr ([oa_record], [str ''Missing `summary`: DP.OA.003 (DP.OA.003-queue.md)''])"
proof -
  have n: "fname oa_file = str ''DP.OA.003-queue.md''"
    by (simp add: oa_file_def)
  have s: "startswith (str ''_'') (str ''DP.OA.003-queue.md'') = False"
    "str ''DP.OA.003-queue.md'' \<notin> set [str ''00-pack-manifest.md'', str ''ontology.md'']"
    by (simp_all add: text_defs)
  have w: "warning_text oa_record oa_file = str ''Missing `summary`: DP.OA.003 (DP.OA.003-queue.md)''"
    by (simp add: warning_text_def oa_fields n str_def)
  have r: "pparts oa_pack = [str ''srv'', str ''digital-platform'']"
    by (simp add: oa_pack_def)
  show ?thesis
    unfolding oa_rglob r
    by (simp add: n s oa_parse oa_fields w del: set_simps)
qed

lemma oa_row: "entity_row oa_record = str ''| DP.OA.003 | Queue | '' @ dash @ str '' | draft |''"
  by (simp add: entity_row_def oa_fields str_def)

lemma oa_map_lines: "map_lines sample_lib sample_today oa_pack (str ''DP'') = Inr oa_lines"
proof -
  have k: "classify_kind (str ''DP.OA.003'') = str ''OA''"
    by (simp add: classify_kind_def str_def)
  have b: "by_kind_loop [oa_record] [] = Inr [(str ''OA'', [oa_record])]"
    by (simp add: oa_fields k)
  have s: "stale_loop sample_lib sample_today [oa_record] [] = Inr []"
    by (simp add: stale_loop_eq is_datetime_def stale_of_def last_update_def oa_fields)
  show ?thesis
    apply (simp only: map_lines_def oa_walk prod.case b s sum.case)
    by (simp add: sample_iso
      header_lines_def stats_lines_def stats_row_def group_of_def kind_label_def KIND_LABELS_def
      known_sections_def known_section_def known_kinds_def kind_table_def
      extended_sections_def extended_def base_kinds_def extended_subsection_def
      warning_lines_def stale_lines_def footer_lines_def show_nat_digit
      oa_lines_def str_def)
qed

text \<open>
  C6. The claim: a collected record without a \<open>summary\<close> gets exactly one warning and is
  still included in the grouped tables and the counts. The record \<open>DP.OA.003\<close> of the pack
  \<open>oa_pack\<close> has no summary: \<open>generate_map\<close> warns about it once and counts it (the row of
  its kind and the total of 1 are there), but no line of the returned map is its row. Its
  kind \<open>OA\<close> is in \<open>base_kinds\<close> and gets no section, the defect shown for \<open>CHR\<close> above.
\<close>

theorem warned_record_in_no_table:
  "generate_map sample_lib sample_today oa_pack (str ''DP'') = Inr (join [10] oa_lines)
   \<and> map_walk sample_lib (pparts oa_pack) (rglob_md oa_pack) [] []
       = Inr ([oa_record], [str ''Missing `summary`: DP.OA.003 (DP.OA.003-queue.md)''])
   \<and> oa_record ''summary'' = None
   \<and> classify_kind (id_text oa_record) = str ''OA''
   \<and> filter (startswith (str ''- Missing `summary`'')) oa_lines
       = [str ''- Missing `summary`: DP.OA.003 (DP.OA.003-queue.md)'']
   \<and> str ''| Objects of Attention (OA) | 1 |'' \<in> set oa_lines
   \<and> str ''| **Total** | **1** |'' \<in> set oa_lines
   \<and> entity_row oa_record = str ''| DP.OA.003 | Queue | '' @ dash @ str '' | draft |''
   \<and> entity_row oa_record \<notin> set oa_lines
   \<and> filter (startswith (str ''| DP.OA.003'')) oa_lines = []"
proof -
  have g: "generate_map sample_lib sample_today oa_pack (str ''DP'') = Inr (join [10] oa_lines)"
    by (simp add: generate_map_def oa_map_lines)
  have k: "classify_kind (str ''DP.OA.003'') = str ''OA''"
    by (simp add: classify_kind_def str_def)
  have w: "filter (startswith (str ''- Missing `summary`'')) oa_lines
       = [str ''- Missing `summary`: DP.OA.003 (DP.OA.003-queue.md)'']"
    by (simp add: oa_lines_def startswith_def str_def)
  have no: "filter (startswith (str ''| DP.OA.003'')) oa_lines = []"
    by (simp add: oa_lines_def startswith_def str_def)
  have nr: "str ''| DP.OA.003 | Queue | '' @ dash @ str '' | draft |'' \<notin> set oa_lines"
    by (simp add: oa_lines_def dash_def str_def)
  have st: "str ''| Objects of Attention (OA) | 1 |'' \<in> set oa_lines"
    "str ''| **Total** | **1** |'' \<in> set oa_lines"
    by (simp_all add: oa_lines_def)
  from g k w no nr st oa_walk show ?thesis
    by (simp add: oa_fields oa_row)
qed

subsection \<open>Dates in ISO form\<close>

lemma replicate_small: "replicate 2 x = [x, x]" "replicate 3 x = [x, x, x]"
  by (simp_all add: numeral_2_eq_2 numeral_3_eq_3)

lemma show_nat_step: "\<not> n < 10 \<Longrightarrow> show_nat n = show_nat (n div 10) @ [48 + n mod 10]"
  by (simp add: show_nat.simps [of n])

lemma show2: "n < 100 \<Longrightarrow> zpad 2 (show_nat n) = [48 + n div 10, 48 + n mod 10]"
proof (cases "n < 10")
  case True
  then show ?thesis by (simp add: show_nat_digit zpad_def)
next
  case False
  assume "n < 100"
  then have "n div 10 < 10" by simp
  then have "show_nat n = [48 + n div 10, 48 + n mod 10]"
    using False by (simp add: show_nat_step show_nat_digit)
  then show ?thesis by (simp add: zpad_def)
qed

lemma show4:
  assumes "y < 10000"
  shows "zpad 4 (show_nat y) = [48 + y div 1000, 48 + y div 100 mod 10, 48 + y div 10 mod 10, 48 + y mod 10]"
proof -
  have b: "y div 10 div 10 = y div 100" "y div 100 div 10 = y div 1000"
    by (simp_all add: div_mult2_eq)
  consider "y < 10" | "10 \<le> y" "y < 100" | "100 \<le> y" "y < 1000" | "1000 \<le> y"
    by linarith
  then show ?thesis
  proof cases
    case 1
    then have "show_nat y = [48 + y mod 10]" "y div 1000 = 0" "y div 100 = 0" "y div 10 = 0"
      by (simp_all add: show_nat_digit)
    then show ?thesis by (simp add: zpad_def replicate_small)
  next
    case 2
    then have "show_nat (y div 10) = [48 + y div 10]" "\<not> y < 10"
      by (simp_all add: show_nat_digit)
    then have "show_nat y = [48 + y div 10, 48 + y mod 10]"
      by (simp add: show_nat_step)
    moreover from 2 have "y div 1000 = 0" "y div 100 = 0" "y div 10 mod 10 = y div 10"
      by simp_all
    ultimately show ?thesis by (simp add: zpad_def replicate_small)
  next
    case 3
    then have "show_nat (y div 100) = [48 + y div 100]" "\<not> y < 10" "\<not> y div 10 < 10"
      by (simp_all add: show_nat_digit)
    then have "show_nat y = [48 + y div 100, 48 + y div 10 mod 10, 48 + y mod 10]"
      by (simp add: show_nat_step [of y] show_nat_step [of "y div 10"] b)
    moreover from 3 have "y div 1000 = 0" "y div 100 mod 10 = y div 100"
      by simp_all
    ultimately show ?thesis by (simp add: zpad_def)
  next
    case 4
    with assms have "show_nat (y div 1000) = [48 + y div 1000]" "\<not> y < 10" "\<not> y div 10 < 10"
      "\<not> y div 100 < 10"
      by (simp_all add: show_nat_digit)
    then have "show_nat y = [48 + y div 1000, 48 + y div 100 mod 10, 48 + y div 10 mod 10, 48 + y mod 10]"
      by (simp add: show_nat_step [of y] show_nat_step [of "y div 10"] show_nat_step [of "y div 100"] b)
    then show ?thesis by (simp add: zpad_def)
  qed
qed

lemma digit_in_48: "digit_in lo hi (48 + b) = (if lo \<le> b \<and> b \<le> hi then Some b else None)"
  by (simp add: digit_in_def)

lemma digit_val_48: "b < 10 \<Longrightarrow> digit_val U (48 + b) = Some b"
  by (simp add: digit_val_def)

lemma two_digits:
  assumes "n < 100"
  shows "\<exists>a b. a < 10 \<and> b < 10 \<and> n = 10 * a + b \<and> zpad 2 (show_nat n) = [48 + a, 48 + b]"
proof -
  have "n div 10 < 10" using assms by simp
  moreover have "n mod 10 < 10" by simp
  moreover have "n = 10 * (n div 10) + n mod 10" by simp
  moreover have "zpad 2 (show_nat n) = [48 + n div 10, 48 + n mod 10]"
    using assms by (rule show2)
  ultimately show ?thesis by blast
qed

lemma month_iso:
  assumes "1 \<le> m" "m \<le> 12" "k m t = Some v"
  shows "re_month k (zpad 2 (show_nat m) @ t) = Some v"
proof -
  from assms(2) have "m < 100" by simp
  from two_digits [OF this] obtain a b where
    ab: "a < 10" "b < 10" "m = 10 * a + b" and z: "zpad 2 (show_nat m) = [48 + a, 48 + b]"
    by blast
  from assms(1,2) ab have c: "(a = 0 \<and> 1 \<le> b) \<or> (a = 1 \<and> b \<le> 2)"
    by arith
  show ?thesis
    using c assms(3) ab unfolding z
    by (auto simp: re_month_def two_chars_def digit_in_48)
qed

lemma day_iso:
  assumes "1 \<le> d" "d \<le> 31"
  shows "re_day U (\<lambda>d' r. Some (f d' r)) (zpad 2 (show_nat d)) = Some (f d [])"
proof -
  from assms(2) have "d < 100" by simp
  from two_digits [OF this] obtain a b where
    ab: "a < 10" "b < 10" "d = 10 * a + b" and z: "zpad 2 (show_nat d) = [48 + a, 48 + b]"
    by blast
  from assms(1,2) ab have c: "(a = 0 \<and> 1 \<le> b) \<or> a = 1 \<or> a = 2 \<or> (a = 3 \<and> b \<le> 1)"
    by arith
  show ?thesis
    using c ab unfolding z
    by (auto simp: re_day_def two_chars_def digit_in_48 digit_val_48)
qed

lemma days_in_month_le:
  assumes "1 \<le> m" "m \<le> 12"
  shows "days_in_month y m \<le> 31"
proof -
  from assms have "m = 1 \<or> m = 2 \<or> m = 3 \<or> m = 4 \<or> m = 5 \<or> m = 6 \<or> m = 7 \<or> m = 8
      \<or> m = 9 \<or> m = 10 \<or> m = 11 \<or> m = 12"
    by arith
  then show ?thesis
    by (auto simp: days_in_month_def)
qed

lemma year_digits:
  shows "1000 * (y div 1000) + 100 * (y div 100 mod 10) + 10 * (y div 10 mod 10) + y mod 10 = (y::nat)"
proof -
  have a: "y = 10 * (y div 10) + y mod 10" by simp
  have b: "y div 10 = 10 * (y div 10 div 10) + y div 10 mod 10" by simp
  have c: "y div 100 = 10 * (y div 100 div 10) + y div 100 mod 10" by simp
  have d: "y div 10 div 10 = y div 100" "y div 100 div 10 = y div 1000"
    by (simp_all add: div_mult2_eq)
  from a b c show ?thesis unfolding d by linarith
qed

lemma strptime_isoformat:
  assumes "1 \<le> y" "y \<le> 9999" "1 \<le> m" "m \<le> 12" "1 \<le> d" "d \<le> days_in_month y m"
  shows "strptime_ymd U (isoformat (Date y m d)) = Some (Date y m d)"
proof -
  have y: "y < 10000" using assms(2) by simp
  have d31: "d \<le> 31"
    using assms(6) days_in_month_le [OF assms(3,4), of y] by simp
  have digits: "digit_val U (48 + y div 1000) = Some (y div 1000)"
    "digit_val U (48 + y div 100 mod 10) = Some (y div 100 mod 10)"
    "digit_val U (48 + y div 10 mod 10) = Some (y div 10 mod 10)"
    "digit_val U (48 + y mod 10) = Some (y mod 10)"
    using y by (simp_all add: digit_val_48)
  have iso: "isoformat (Date y m d) =
      [48 + y div 1000, 48 + y div 100 mod 10, 48 + y div 10 mod 10, 48 + y mod 10]
      @ 45 # (zpad 2 (show_nat m) @ 45 # zpad 2 (show_nat d))"
    by (simp add: isoformat_def show4 [OF y] str_def)
  have dd: "lit 45 (re_day U (\<lambda>d r. Some (y, m, d, r))) (45 # zpad 2 (show_nat d)) = Some (y, m, d, [])"
    by (simp add: lit_def day_iso [OF assms(5) d31])
  have md: "re_month (\<lambda>m. lit 45 (re_day U (\<lambda>d r. Some (y, m, d, r))))
      (zpad 2 (show_nat m) @ 45 # zpad 2 (show_nat d)) = Some (y, m, d, [])"
    using assms(3,4) dd by (rule month_iso)
  have "re_ymd U (isoformat (Date y m d)) = Some (y, m, d, [])"
    unfolding iso re_ymd_def
    by (simp add: re_year_def digits year_digits lit_def md)
  then show ?thesis
    using assms(1,5,6) by (simp add: strptime_ymd_def)
qed

subsection \<open>The claim about staleness\<close>

text \<open>
  When \<open>generate_map\<close> returns the map, the staleness entries are those of the collected
  records, in the order of the walk: a record whose \<open>last_updated\<close> is a date, or a string
  that parses as one, more than 90 days before the run date has the entry (identifier, days)
  and its row is a line of the map; a record at 90 days or less, or without such a date, has
  none. The table stands just before the closing lines, its rows sorted by descending day
  count. Every existing date in ISO form \<open>YYYY-MM-DD\<close> parses as itself, a date value is
  taken as it is, and an absent field or a string that does not parse gives no date. No
  collected record then has a \<open>last_updated\<close> with a time of day.
\<close>

lemma stale_entries:
  assumes "generate_map U today p domain = Inr txt"
  shows "\<exists>pre stale lines.
           stale = concat (map (stale_of U today) (map fst (collected_files U (pparts p) (rglob_md p))))
         \<and> txt = join [10] lines
         \<and> lines = pre @ stale_lines stale @ footer_lines (isoformat today)
         \<and> stale_lines stale =
             (if stale = [] then []
              else [str ''## Staleness Warnings (>90 days since update)'', str '''',
                    str ''| ID | Days Since Update |'', str ''|----|-------------------|'']
                   @ map stale_row (sort_key (\<lambda>x. - snd x) stale) @ [str ''''])
         \<and> sorted_wrt (\<lambda>a b. snd b \<le> snd a) (sort_key (\<lambda>x. - snd x) stale)
         \<and> mset (sort_key (\<lambda>x. - snd x) stale) = mset stale
         \<and> list_all (\<lambda>e. \<not> is_datetime e \<and>
               (case last_update U e of
                 None \<Rightarrow> stale_of U today e = []
               | Some lu \<Rightarrow>
                   if 90 < days_between today lu
                   then stale_of U today e = [(id_text e, days_between today lu)]
                      \<and> str ''| '' @ id_text e @ str '' | '' @ show_int (days_between today lu) @ str '' |'' \<in> set lines
                   else stale_of U today e = []))
             (map fst (collected_files U (pparts p) (rglob_md p)))
         \<and> (valid_date lu
               \<and> (r ''last_updated'' = Some (YStr (isoformat lu)) \<or> r ''last_updated'' = Some (YDate lu))
              \<longrightarrow> last_update U r = Some lu)
         \<and> (r ''last_updated'' = None \<or> (\<exists>s. r ''last_updated'' = Some (YStr s) \<and> strptime_ymd U s = None)
              \<longrightarrow> last_update U r = None)"
proof -
  let ?cf = "collected_files U (pparts p) (rglob_md p)"
  let ?es = "map fst ?cf"
  from assms obtain lines where ml: "map_lines U today p domain = Inr lines"
    and tx: "txt = join [10] lines"
    unfolding generate_map_lines by blast
  from map_lines_parts [OF ml] obtain bk stale where
    nd: "\<not> list_ex is_datetime ?es" and
    stale: "stale = concat (map (stale_of U today) ?es)" and
    lines: "lines = (header_lines (isoformat today) domain @ stats_lines bk ?es @ known_sections bk
       @ extended_sections bk @ warning_lines (map (\<lambda>(fm, f). warning_text fm f)
              (filter (\<lambda>(fm, f). fm ''summary'' = None) ?cf)))
       @ stale_lines stale @ footer_lines (isoformat today)"
    by auto
  have sorted: "sorted_wrt (\<lambda>a b. snd b \<le> snd a) (sort_key (\<lambda>x. - snd x) stale)"
    using sorted_sort_key [of "\<lambda>x. - snd x" stale] by (simp add: sorted_map)
  have row: "str ''| '' @ id_text e @ str '' | '' @ show_int (days_between today lu) @ str '' |'' \<in> set lines"
    if "e \<in> set ?es" "last_update U e = Some lu" "90 < days_between today lu" for e lu
  proof -
    from that have "stale_of U today e = [(id_text e, days_between today lu)]"
      by (simp add: stale_of_def)
    with that(1) have "(id_text e, days_between today lu) \<in> set stale"
      unfolding stale by (simp only: set_concat set_map) force
    then have "stale_row (id_text e, days_between today lu) \<in> set (stale_lines stale)"
      by (auto simp: stale_lines_def)
    then show ?thesis unfolding lines by (simp add: stale_row_def)
  qed
  have each: "\<not> is_datetime e \<and> (case last_update U e of
                 None \<Rightarrow> stale_of U today e = []
               | Some lu \<Rightarrow>
                   if 90 < days_between today lu
                   then stale_of U today e = [(id_text e, days_between today lu)]
                      \<and> str ''| '' @ id_text e @ str '' | '' @ show_int (days_between today lu) @ str '' |'' \<in> set lines
                   else stale_of U today e = [])"
    if "e \<in> set ?es" for e
    using row [OF that] nd that by (auto simp: stale_of_def list_ex_iff split: option.splits)
  have iso: "last_update U r = Some lu"
    if "valid_date lu \<and> (r ''last_updated'' = Some (YStr (isoformat lu)) \<or> r ''last_updated'' = Some (YDate lu))"
  proof -
    obtain y m d where lu: "lu = Date y m d" by (cases lu)
    with that have "strptime_ymd U (isoformat lu) = Some lu"
      by (simp add: valid_date_def strptime_isoformat)
    with that show ?thesis
      by (auto simp: last_update_def)
  qed
  have none: "last_update U r = None"
    if "r ''last_updated'' = None \<or> (\<exists>s. r ''last_updated'' = Some (YStr s) \<and> strptime_ymd U s = None)"
    using that by (auto simp: last_update_def)
  have sl: "stale_lines stale =
             (if stale = [] then []
              else [str ''## Staleness Warnings (>90 days since update)'', str '''',
                    str ''| ID | Days Since Update |'', str ''|----|-------------------|'']
                   @ map stale_row (sort_key (\<lambda>x. - snd x) stale) @ [str ''''])"
    by (simp add: stale_lines_def)
  have ms: "mset (sort_key (\<lambda>x. - snd x) stale) = mset stale"
    by simp
  from each have all: "list_all (\<lambda>e. \<not> is_datetime e \<and>
               (case last_update U e of
                 None \<Rightarrow> stale_of U today e = []
               | Some lu \<Rightarrow>
                   if 90 < days_between today lu
                   then stale_of U today e = [(id_text e, days_between today lu)]
                      \<and> str ''| '' @ id_text e @ str '' | '' @ show_int (days_between today lu) @ str '' |'' \<in> set lines
                   else stale_of U today e = [])) ?es"
    unfolding list_all_iff by blast
  from stale tx lines sl sorted ms all iso none show ?thesis
    by (intro exI conjI impI) (assumption | blast)+
qed

lemma timed_rglob: "rglob_md timed_pack = [timed_file]"
  by (simp add: rglob_md_def timed_pack_def timed_file_def text_defs)

lemma timed_parse:
  "parse_frontmatter sample_lib [str ''srv'', str ''digital-platform''] timed_file = Inr (Some timed_record)"
  by (simp add: timed_file_def timed_record_def sample_lib_def sample_load_def parse_defs text_defs)

lemma timed_fields:
  "timed_record ''summary'' \<noteq> None" "id_text timed_record = str ''DP.M.004''"
  "timed_record ''id'' = Some (YStr (str ''DP.M.004''))"
  "timed_record ''last_updated'' = Some (YDateTime (str ''2023-12-25 10:30:00''))"
  by (simp_all add: timed_record_def id_text_def)

lemma timed_names:
  "fname timed_file = str ''DP.M.004-review.md''"
  "startswith (str ''_'') (str ''DP.M.004-review.md'') = False"
  "str ''DP.M.004-review.md'' \<notin> set [str ''00-pack-manifest.md'', str ''ontology.md'']"
  "str ''DP.M.004-review.md'' \<noteq> str ''00-pack-manifest.md''"
  "pparts timed_pack = [str ''srv'', str ''digital-platform'']"
  by (simp_all add: timed_file_def timed_pack_def text_defs)

lemma timed_walk:
  "map_walk sample_lib (pparts timed_pack) (rglob_md timed_pack) [] [] = Inr ([timed_record], [])"
  unfolding timed_rglob timed_names(5)
  by (simp add: timed_names timed_parse timed_fields del: set_simps)

lemma timed_domain: "detect_domain sample_lib timed_pack = Inr (YStr (str ''DP''))"
proof -
  have m: "manifest_of timed_pack = None"
    by (simp add: manifest_of_def timed_pack_def timed_file_def)
  have s: "split_on 46 (str ''DP.M.004'') = [str ''DP'', str ''M'', str ''004'']"
    by (simp add: str_def)
  have w: "domain_walk sample_lib [str ''srv'', str ''digital-platform''] [timed_file] = Inr (Some (str ''DP''))"
    by (simp add: timed_names timed_parse timed_fields s)
  show ?thesis
    by (simp only: detect_domain_def manifest_domain_def m timed_rglob timed_names(5) w
        option.case sum.case)
qed

text \<open>
  C4. The claim: a collected record whose \<open>last_updated\<close> is a date value more than 90 days
  before the run date gets a staleness entry. The record \<open>DP.M.004\<close> of the pack
  \<open>timed_pack\<close> has \<open>last_updated: 2023-12-25 10:30:00\<close>, which the YAML parser loads as a
  \<^verbatim>\<open>datetime\<close>, an instance of \<^verbatim>\<open>date\<close>, 159 days before the run date: line 203
  takes it as a date, the subtraction on line 207 raises \<^verbatim>\<open>TypeError\<close>, \<open>generate_map\<close>
  returns no map at all, and the run ends with exit code 1 before anything is written.
\<close>

theorem datetime_stops_the_map:
  "map_walk sample_lib (pparts timed_pack) (rglob_md timed_pack) [] [] = Inr ([timed_record], [])
   \<and> timed_record ''last_updated'' = Some (YDateTime (str ''2023-12-25 10:30:00''))
   \<and> days_between sample_today (Date 2023 12 25) = 159
   \<and> stale_loop sample_lib sample_today [timed_record] [] = Inl TypeError
   \<and> generate_map sample_lib sample_today timed_pack (str ''DP'') = Inl TypeError
   \<and> detect_domain sample_lib timed_pack = Inr (YStr (str ''DP''))
   \<and> main sample_lib sample_today sample_resolve True [str ''generate-map.py'', str ''timed'']
       = (1, [str ''Domain: DP'', str ''Pack directory: /srv/digital-platform''])"
proof -
  have b: "by_kind_loop [timed_record] [] \<noteq> Inl err" for err
    by (simp add: timed_fields)
  have s: "stale_loop sample_lib sample_today [timed_record] [] = Inl TypeError"
    by (simp add: timed_fields)
  have g: "generate_map sample_lib sample_today timed_pack (str ''DP'') = Inl TypeError"
    by (simp add: generate_map_def map_lines_def timed_walk s timed_fields)
  have r: "sample_resolve (str ''timed'') = Directory timed_pack"
    by (simp add: sample_resolve_def str_def)
  have p: "path_str [str ''srv'', str ''digital-platform''] = str ''/srv/digital-platform''"
    by (simp add: path_str_def str_def)
  have m: "main sample_lib sample_today sample_resolve True [str ''generate-map.py'', str ''timed'']
       = (1, [str ''Domain: DP'', str ''Pack directory: /srv/digital-platform''])"
    by (simp add: main_def r timed_domain g timed_names(5) p) (simp add: str_def)
  from timed_walk timed_fields(4) sample_days(1) s g timed_domain m show ?thesis
    by simp
qed

end
